theory Spec2Isabelle
  imports Main "HOL-Library.Word" "HOL-Library.Char_ord" "HOL-Library.List_Lexorder"
begin

section \<open>The storage driver as the persistence code sees it\<close>

text \<open>
  \<^verbatim>\<open>sql_pt_representation.cc\<close> talks to the store through \<^verbatim>\<open>utils::dbms::SQLQuery\<close>
  (\<^verbatim>\<open>Prepare\<close>, \<^verbatim>\<open>Bind\<close>, \<^verbatim>\<open>Exec\<close>, \<^verbatim>\<open>Next\<close>, \<^verbatim>\<open>Reset\<close>, \<^verbatim>\<open>IsNull\<close>, \<^verbatim>\<open>GetInteger\<close>, ...) and names
  its statements by the constants of \<^verbatim>\<open>sql_pt_queries.h\<close>. Neither the wrapper nor the
  text of the statements is part of the sources at hand, so a statement is identified by
  the name of its constant and the store is a parameter: a value of type \<open>'db driver\<close>
  answers every call the code makes.

  A cell of a result row, and a value bound to a placeholder, is NULL, an integer or a
  text. Booleans are bound as the integers 0 and 1.
\<close>

datatype sqlval = SNull | SInt int | SText string

type_synonym row = "sqlval list"

text \<open>The statements the code reads with (\<^verbatim>\<open>Next\<close> or \<^verbatim>\<open>Exec\<close> followed by getters).\<close>

datatype (plugins only: code) select_sql =
    kSelectRpc | kSelectKilometers | kSelectDays
  | kCheckPgNumber | kCheckDBIntegrity | kIsFirstRun
  | kSelectModuleMeta | kSelectModuleConfig | kSelectEndpoints
  | kSelectNotificationsPerMin | kSelectSecondsBetweenRetries
  | kSelectAppLevels | kSelectDeviceData | kSelectFunctionalGroups | kSelectAllRpcs
  | kSelectUserMsgsVersion | kSelectAppPolicies
  | kSelectNicknames | kSelectAppTypes | kSelectRequestTypes | kSelectAppGroups
  | kSelectApplicationRevoked | kSelectApplicationIsDefault | kSelectApplicationFull

text \<open>The statements the code writes with.\<close>

datatype (plugins only: code) update_sql =
    kSetNotFirstRun | kCreateSchema | kInsertInitData | kDropSchema
  | kDeleteRpc | kDeleteFunctionalGroup | kInsertFunctionalGroup
  | kInsertRpc | kInsertRpcWithParameter
  | kDeleteAppGroup | kDeleteApplication | kDeleteRequestType
  | kInsertApplication | kInsertAppGroup | kInsertNickname | kInsertAppType
  | kInsertRequestType | kSaveModuleMeta | kUpdateModuleConfig
  | kDeleteEndpoint | kInsertEndpoint | kDeleteMessageString | kUpdateVersion
  | kInsertMessageType | kInsertLanguage
  | kDeleteSecondsBetweenRetries | kInsertSecondsBetweenRetry
  | kInsertNotificationsByPriority | kInsertDeviceData
  | kDeleteAppLevel | kInsertAppLevel
  | kDeleteAppGroupByApplicationId | kUpdateIsDefault
  | kInsertApplicationFull | kUpdatePreloaded | kUpdateApplicationCustomData

text \<open>
  The driver. \<open>PrepareSelect\<close> and \<open>PrepareUpdate\<close> are the result of \<^verbatim>\<open>Prepare\<close>;
  \<open>Rows q binds db\<close> are the rows that successive calls of \<^verbatim>\<open>Next\<close> deliver before
  \<^verbatim>\<open>Next\<close> returns false; \<open>SelectOk\<close> is the result of \<^verbatim>\<open>Exec()\<close> on a reading
  statement (the code then reads the current row, which is the first of \<open>Rows\<close>);
  \<open>Exec q binds db\<close> is the result of \<^verbatim>\<open>Exec\<close> on a writing statement together with the
  store it leaves behind. Where the code tests \<^verbatim>\<open>!query.Exec() || !query.Reset()\<close> the
  flag stands for both calls. A failed statement may still have changed the store.
\<close>

record 'db driver =
  PrepareSelect :: "select_sql \<Rightarrow> 'db \<Rightarrow> bool"
  Rows :: "select_sql \<Rightarrow> sqlval list \<Rightarrow> 'db \<Rightarrow> row list"
  SelectOk :: "select_sql \<Rightarrow> sqlval list \<Rightarrow> 'db \<Rightarrow> bool"
  PrepareUpdate :: "update_sql \<Rightarrow> 'db \<Rightarrow> bool"
  Exec :: "update_sql \<Rightarrow> sqlval list \<Rightarrow> 'db \<Rightarrow> bool \<times> 'db"

text \<open>
  The getters of a row. A column outside the row reads as NULL, NULL reads as 0 and as
  the empty string. \<^verbatim>\<open>GetInteger\<close> returns a C \<^verbatim>\<open>int\<close>: the low 32 bits of the cell.
\<close>

type_synonym int32 = "32 word"
type_synonym uint32 = "32 word"

definition col :: "row \<Rightarrow> nat \<Rightarrow> sqlval" where
  "col r i = (if i < length r then r ! i else SNull)"

definition IsNull :: "row \<Rightarrow> nat \<Rightarrow> bool" where
  "IsNull r i = (col r i = SNull)"

definition GetInteger :: "row \<Rightarrow> nat \<Rightarrow> int32" where
  "GetInteger r i = (case col r i of SInt n \<Rightarrow> word_of_int n | _ \<Rightarrow> 0)"

definition GetUInteger :: "row \<Rightarrow> nat \<Rightarrow> uint32" where
  "GetUInteger r i = (case col r i of SInt n \<Rightarrow> word_of_int n | _ \<Rightarrow> 0)"

definition GetBoolean :: "row \<Rightarrow> nat \<Rightarrow> bool" where
  "GetBoolean r i = (GetInteger r i \<noteq> 0)"

definition GetString :: "row \<Rightarrow> nat \<Rightarrow> string" where
  "GetString r i = (case col r i of SText s \<Rightarrow> s | _ \<Rightarrow> [])"

text \<open>The row a getter reads after \<^verbatim>\<open>Exec()\<close> on a reading statement.\<close>

definition current_row :: "row list \<Rightarrow> row" where
  "current_row rs = (case rs of [] \<Rightarrow> [] | r # _ \<Rightarrow> r)"

definition BindBool :: "bool \<Rightarrow> sqlval" where
  "BindBool b = SInt (if b then 1 else 0)"

definition BindInt :: "int32 \<Rightarrow> sqlval" where
  "BindInt w = SInt (sint w)"

definition BindUInt :: "uint32 \<Rightarrow> sqlval" where
  "BindUInt w = SInt (uint w)"

text \<open>
  A scripted driver for concrete runs: every reading statement has a fixed answer for
  the values bound to it (\<open>None\<close> without bound values: it does not prepare), every
  writing statement a fixed result, and the store is the log of the statements executed
  so far.
\<close>

type_synonym log = "(update_sql \<times> sqlval list) list"

definition scripted ::
  "(select_sql \<Rightarrow> sqlval list \<Rightarrow> row list option) \<Rightarrow> (update_sql \<Rightarrow> bool) \<Rightarrow> log driver" where
  "scripted answer ok =
     \<lparr> PrepareSelect = (\<lambda>q db. answer q [] \<noteq> None),
       Rows = (\<lambda>q binds db. case answer q binds of None \<Rightarrow> [] | Some rs \<Rightarrow> rs),
       SelectOk = (\<lambda>q binds db. True),
       PrepareUpdate = (\<lambda>q db. True),
       Exec = (\<lambda>q binds db. (ok q, db @ [(q, binds)])) \<rparr>"

section \<open>Decision engine\<close>

subsection \<open>CheckPermissions\<close>

datatype PermitResult = kRpcAllowed | kRpcDisallowed | kRpcUserDisallowed

record CheckPermissionResult =
  hmi_level_permitted :: PermitResult
  list_of_allowed_params :: "string list"

text \<open>The \<^verbatim>\<open>while (ret)\<close> loop of \<^verbatim>\<open>CheckPermissions\<close>, one round per delivered row.\<close>

fun CheckPermissions_rows :: "row list \<Rightarrow> CheckPermissionResult \<Rightarrow> CheckPermissionResult" where
  "CheckPermissions_rows [] result = result"
| "CheckPermissions_rows (r # rs) result =
     CheckPermissions_rows rs
       (if \<not> IsNull r 0
        then result\<lparr>list_of_allowed_params := list_of_allowed_params result @ [GetString r 0]\<rparr>
        else result)"

definition CheckPermissions ::
  "'db driver \<Rightarrow> 'db \<Rightarrow> string \<Rightarrow> string \<Rightarrow> string \<Rightarrow> CheckPermissionResult \<Rightarrow> CheckPermissionResult" where
  "CheckPermissions drv db app_id hmi_level rpc result =
     (if \<not> PrepareSelect drv kSelectRpc db then result
      else
        let rows = Rows drv kSelectRpc [SText app_id, SText hmi_level, SText rpc] db;
            ret = (rows \<noteq> []);
            result1 = result\<lparr>hmi_level_permitted := (if ret then kRpcAllowed else kRpcDisallowed)\<rparr>
        in CheckPermissions_rows rows result1)"

subsection \<open>Update cadence\<close>

text \<open>
  The arithmetic is on C \<^verbatim>\<open>int\<close>: comparisons read the words as signed, subtraction
  wraps. The tests of a condition are joined by \<^verbatim>\<open>||\<close> and so are evaluated left to right.
\<close>

definition KilometersBeforeExchange :: "'db driver \<Rightarrow> 'db \<Rightarrow> int32 \<Rightarrow> int32" where
  "KilometersBeforeExchange drv db current =
     (if \<not> PrepareSelect drv kSelectKilometers db \<or> \<not> SelectOk drv kSelectKilometers [] db then 0
      else
        let r = current_row (Rows drv kSelectKilometers [] db);
            limit = GetInteger r 0;
            last = GetInteger r 1
        in if sint limit < 0 \<or> sint last < 0 \<or> sint current < 0 \<or> sint current < sint last \<or>
              sint limit < sint (current - last)
           then 0
           else limit - (current - last))"

definition DaysBeforeExchange :: "'db driver \<Rightarrow> 'db \<Rightarrow> int32 \<Rightarrow> int32" where
  "DaysBeforeExchange drv db current =
     (if \<not> PrepareSelect drv kSelectDays db \<or> \<not> SelectOk drv kSelectDays [] db then 0
      else
        let r = current_row (Rows drv kSelectDays [] db);
            limit = GetInteger r 0;
            last = GetInteger r 1
        in if 0 = last then limit
           else if sint limit < 0 \<or> sint last < 0 \<or> sint current < 0 \<or> sint current < sint last \<or>
              sint limit < sint (current - last)
           then 0
           else limit - (current - last))"

subsection \<open>GetUserFriendlyMsg\<close>

record UserFriendlyMessage =
  message_code :: string

text \<open>The loop over \<^verbatim>\<open>msg_codes\<close>; \<^verbatim>\<open>push_back\<close> appends to the result built so far.\<close>

fun GetUserFriendlyMsg_loop :: "string list \<Rightarrow> UserFriendlyMessage list \<Rightarrow> UserFriendlyMessage list" where
  "GetUserFriendlyMsg_loop [] result = result"
| "GetUserFriendlyMsg_loop (c # cs) result =
     GetUserFriendlyMsg_loop cs (result @ [\<lparr> message_code = c \<rparr>])"

definition GetUserFriendlyMsg ::
  "'db driver \<Rightarrow> 'db \<Rightarrow> string list \<Rightarrow> string \<Rightarrow> UserFriendlyMessage list" where
  "GetUserFriendlyMsg drv db msg_codes language = GetUserFriendlyMsg_loop msg_codes []"

text \<open>
  The pattern of the specification, on mathematical integers: what is left of the limit
  after the distance consumed since the last exchange, and 0 for a negative or
  out-of-order input.
\<close>

definition cadence_remaining :: "int \<Rightarrow> int \<Rightarrow> int \<Rightarrow> int" where
  "cadence_remaining limit lst current =
     (if limit < 0 \<or> lst < 0 \<or> current < 0 \<or> current < lst \<or> limit < current - lst then 0
      else limit - (current - lst))"

section \<open>Lifecycle controller\<close>









section \<open>Document model\<close>

text \<open>
  The generated policy table types (\<^verbatim>\<open>policy_table::Table\<close> and its parts, built from the
  wrappers \<^verbatim>\<open>Optional\<close>, \<^verbatim>\<open>Nullable\<close>, \<^verbatim>\<open>Stringifyable\<close>, \<^verbatim>\<open>Map\<close>, \<^verbatim>\<open>Array\<close>, \<^verbatim>\<open>Enum\<close>) are not part
  of the sources at hand. The records below have the fields the persistence code reads
  and writes, with the presence the code distinguishes:
  \<^item> an \<^verbatim>\<open>Optional\<close> scalar or container is an \<open>option\<close>; \<open>None\<close> is "not initialised",
    and reading it through \<^verbatim>\<open>operator*\<close> gives the default value (0, the empty string,
    the empty container);
  \<^item> a \<^verbatim>\<open>Nullable\<close> value keeps its content beside the null mark, since the code reads the
    fields of a null value;
  \<^item> a \<^verbatim>\<open>Stringifyable\<close> value keeps its content beside the predefined string; it is a
    string when the predefined string is not empty, and assigning a plain value to it
    replaces the content and leaves the string;
  \<^item> a \<^verbatim>\<open>std::map\<close> keyed by strings is an association list kept in the order of its
    keys, which is the order in which the code iterates over it;
  \<^item> an integer field holds what the getter it is filled from returns.
\<close>

record 'a Nullable =
  is_null :: bool
  val :: 'a

record 'a Stringifyable =
  predefined_string :: string
  base :: 'a

definition is_string :: "'a Stringifyable \<Rightarrow> bool" where
  "is_string s = (predefined_string s \<noteq> [])"

definition deref_int :: "32 word option \<Rightarrow> 32 word" where
  "deref_int x = (case x of None \<Rightarrow> 0 | Some v \<Rightarrow> v)"

definition deref_bool :: "bool option \<Rightarrow> bool" where
  "deref_bool x = (case x of None \<Rightarrow> False | Some v \<Rightarrow> v)"

definition deref_string :: "string option \<Rightarrow> string" where
  "deref_string x = (case x of None \<Rightarrow> [] | Some v \<Rightarrow> v)"

definition deref_list :: "'a list option \<Rightarrow> 'a list" where
  "deref_list x = (case x of None \<Rightarrow> [] | Some v \<Rightarrow> v)"

subsection \<open>Maps\<close>

type_synonym 'v cmap = "(string \<times> 'v) list"

text \<open>\<^verbatim>\<open>m[k] = v\<close> on a map kept in key order.\<close>

fun map_assign :: "string \<Rightarrow> 'v \<Rightarrow> 'v cmap \<Rightarrow> 'v cmap" where
  "map_assign k v [] = [(k, v)]"
| "map_assign k v ((k', v') # m) =
     (if k < k' then (k, v) # (k', v') # m
      else if k = k' then (k, v) # m
      else (k', v') # map_assign k v m)"

text \<open>Reading \<^verbatim>\<open>m[k]\<close>: the entry, or the default value \<open>d\<close> the access creates.\<close>

definition map_at :: "'v \<Rightarrow> 'v cmap \<Rightarrow> string \<Rightarrow> 'v" where
  "map_at d m k = (case map_of m k of None \<Rightarrow> d | Some v \<Rightarrow> v)"

text \<open>\<^verbatim>\<open>m[k]\<close> followed by a change of the entry.\<close>

definition map_modify :: "'v \<Rightarrow> string \<Rightarrow> ('v \<Rightarrow> 'v) \<Rightarrow> 'v cmap \<Rightarrow> 'v cmap" where
  "map_modify d k f m = map_assign k (f (map_at d m k)) m"

subsection \<open>Enumerations\<close>

text \<open>
  The enumerated domains and their tokens are generated code too. A domain is a type
  parameter, with its two conversions: the partial \<^verbatim>\<open>EnumFromJsonString\<close> and the total
  \<^verbatim>\<open>EnumToJsonString\<close>. A field of enumeration type is an \<open>option\<close>: \<open>None\<close> stands for a
  field without a valid enumerator (never set, or set from a variable that a failed
  conversion left alone), for which \<^verbatim>\<open>EnumToJsonString\<close> is taken to give the empty string.
\<close>

record 'e codec =
  EnumFromJsonString :: "string \<Rightarrow> 'e option"
  EnumToJsonString :: "'e \<Rightarrow> string"

record ('pri, 'hmi, 'par, 'aht, 'rqt) enums =
  Priority_enum :: "'pri codec"
  HmiLevel_enum :: "'hmi codec"
  Parameter_enum :: "'par codec"
  AppHMIType_enum :: "'aht codec"
  RequestType_enum :: "'rqt codec"

definition EnumToJsonString_field :: "'e codec \<Rightarrow> 'e option \<Rightarrow> string" where
  "EnumToJsonString_field c x = (case x of None \<Rightarrow> [] | Some e \<Rightarrow> EnumToJsonString c e)"

subsection \<open>The policy table\<close>

record ModuleMeta =
  pt_exchanged_at_odometer_x :: "int32 option"
  pt_exchanged_x_days_after_epoch :: "int32 option"
  ignition_cycles_since_last_exchange :: "int32 option"

record ModuleConfig =
  preloaded_pt :: "bool option"
  exchange_after_x_ignition_cycles :: "int32 option"
  exchange_after_x_kilometers :: "int32 option"
  exchange_after_x_days :: "int32 option"
  timeout_after_x_seconds :: "int32 option"
  vehicle_make :: "string option"
  vehicle_model :: "string option"
  vehicle_year :: "string option"
  preloaded_date :: "string option"
  module_certificate :: "string option"
  endpoints :: "string list cmap cmap"
  notifications_per_minute_by_priority :: "int32 cmap"
  seconds_between_retries :: "int32 list"

record AppLevel =
  app_level_initialized :: bool

record UsageAndErrorCounts =
  app_level :: "AppLevel cmap option"

record DeviceParams =
  device_params_initialized :: bool

record ('hmi, 'par) RpcParameters =
  hmi_levels :: "'hmi list"
  parameters :: "'par list option"

record ('hmi, 'par) Rpcs =
  user_consent_prompt :: "string option"
  rpcs :: "('hmi, 'par) RpcParameters cmap Nullable"

text \<open>The fields of a \<^verbatim>\<open>MessageString\<close> are never read: \<open>SaveMessageString\<close> is empty.\<close>

type_synonym MessageString = unit

record MessageLanguages =
  languages :: "MessageString cmap"

record ConsumerFriendlyMessages =
  version :: "string option"
  messages :: "MessageLanguages cmap option"

record 'pri DevicePolicy =
  device_priority :: "'pri option"

record ('pri, 'aht, 'rqt) ApplicationParams =
  priority :: "'pri option"
  memory_kb :: "int32 option"
  heart_beat_timeout_ms :: "uint32 option"
  certificate :: "string option"
  groups :: "string list"
  nicknames :: "string list option"
  AppHMIType :: "'aht list option"
  RequestType :: "'rqt list option"

type_synonym ('pri, 'aht, 'rqt) AppPolicy = "('pri, 'aht, 'rqt) ApplicationParams Nullable Stringifyable"

record ('pri, 'aht, 'rqt) ApplicationPoliciesSection =
  apps :: "('pri, 'aht, 'rqt) AppPolicy cmap"
  device :: "'pri DevicePolicy"

record ('pri, 'hmi, 'par, 'aht, 'rqt) Table =
  module_meta :: ModuleMeta
  module_config :: ModuleConfig
  usage_and_error_counts :: UsageAndErrorCounts
  device_data :: "DeviceParams cmap option"
  functional_groupings :: "('hmi, 'par) Rpcs cmap"
  consumer_friendly_messages :: ConsumerFriendlyMessages
  app_policies_section :: "('pri, 'aht, 'rqt) ApplicationPoliciesSection"

text \<open>Default-constructed values.\<close>

definition new_ModuleMeta :: ModuleMeta where
  "new_ModuleMeta = \<lparr> pt_exchanged_at_odometer_x = None, pt_exchanged_x_days_after_epoch = None,
     ignition_cycles_since_last_exchange = None \<rparr>"

definition new_ModuleConfig :: ModuleConfig where
  "new_ModuleConfig = \<lparr> preloaded_pt = None, exchange_after_x_ignition_cycles = None,
     exchange_after_x_kilometers = None, exchange_after_x_days = None,
     timeout_after_x_seconds = None, vehicle_make = None, vehicle_model = None,
     vehicle_year = None, preloaded_date = None, module_certificate = None, endpoints = [],
     notifications_per_minute_by_priority = [], seconds_between_retries = [] \<rparr>"

definition new_RpcParameters :: "('hmi, 'par) RpcParameters" where
  "new_RpcParameters = \<lparr> hmi_levels = [], parameters = None \<rparr>"

definition new_Rpcs :: "('hmi, 'par) Rpcs" where
  "new_Rpcs = \<lparr> user_consent_prompt = None, rpcs = \<lparr> is_null = False, val = [] \<rparr> \<rparr>"

definition new_ApplicationParams :: "('pri, 'aht, 'rqt) ApplicationParams Nullable" where
  "new_ApplicationParams =
     \<lparr> is_null = False,
       val = \<lparr> priority = None, memory_kb = None, heart_beat_timeout_ms = None,
               certificate = None, groups = [], nicknames = None, AppHMIType = None,
               RequestType = None \<rparr> \<rparr>"

definition new_AppPolicy :: "('pri, 'aht, 'rqt) AppPolicy" where
  "new_AppPolicy = \<lparr> predefined_string = [], base = new_ApplicationParams \<rparr>"

definition new_Table :: "('pri, 'hmi, 'par, 'aht, 'rqt) Table" where
  "new_Table =
     \<lparr> module_meta = new_ModuleMeta, module_config = new_ModuleConfig,
       usage_and_error_counts = \<lparr> app_level = None \<rparr>, device_data = None,
       functional_groupings = [],
       consumer_friendly_messages = \<lparr> version = None, messages = None \<rparr>,
       app_policies_section = \<lparr> apps = [], device = \<lparr> device_priority = None \<rparr> \<rparr> \<rparr>"

definition kDefaultId :: string where
  "kDefaultId = ''default''"

definition kPreDataConsentId :: string where
  "kPreDataConsentId = ''pre_DataConsent''"

definition kDeviceId :: string where
  "kDeviceId = ''device''"

section \<open>Persistence engine: loading\<close>

text \<open>
  \<open>InsertUnique\<close>: the loop advances while the element differs from the value, and the
  value is pushed when the loop reached the end of the array.
\<close>

fun InsertUnique_scan :: "'a \<Rightarrow> 'a list \<Rightarrow> nat" where
  "InsertUnique_scan v [] = 0"
| "InsertUnique_scan v (x # xs) = (if x \<noteq> v then Suc (InsertUnique_scan v xs) else 0)"

definition InsertUnique :: "'a \<Rightarrow> 'a list \<Rightarrow> 'a list" where
  "InsertUnique v array = (if length array = InsertUnique_scan v array then array @ [v] else array)"

definition GatherModuleMeta :: "'db driver \<Rightarrow> 'db \<Rightarrow> ModuleMeta \<Rightarrow> ModuleMeta" where
  "GatherModuleMeta drv db meta =
     (if PrepareSelect drv kSelectModuleMeta db
      then (case Rows drv kSelectModuleMeta [] db of
              [] \<Rightarrow> meta
            | r # _ \<Rightarrow> meta
                \<lparr> pt_exchanged_at_odometer_x := Some (GetInteger r 0),
                  pt_exchanged_x_days_after_epoch := Some (GetInteger r 1),
                  ignition_cycles_since_last_exchange := Some (GetInteger r 2) \<rparr>)
      else meta)"

definition GatherModuleConfig_row :: "'db driver \<Rightarrow> 'db \<Rightarrow> ModuleConfig \<Rightarrow> ModuleConfig" where
  "GatherModuleConfig_row drv db config =
     (if \<not> PrepareSelect drv kSelectModuleConfig db then config
      else (case Rows drv kSelectModuleConfig [] db of
              [] \<Rightarrow> config
            | r # _ \<Rightarrow> config
                \<lparr> preloaded_pt := Some (GetBoolean r 0),
                  exchange_after_x_ignition_cycles := Some (GetInteger r 1),
                  exchange_after_x_kilometers := Some (GetInteger r 2),
                  exchange_after_x_days := Some (GetInteger r 3),
                  timeout_after_x_seconds := Some (GetInteger r 4),
                  vehicle_make := Some (GetString r 5),
                  vehicle_model := Some (GetString r 6),
                  vehicle_year := Some (GetString r 7),
                  preloaded_date := Some (GetString r 8),
                  module_certificate := Some (GetString r 9) \<rparr>))"

definition GatherModuleConfig_endpoint :: "string list cmap cmap \<Rightarrow> row \<Rightarrow> string list cmap cmap" where
  "GatherModuleConfig_endpoint es r =
     map_modify [] (GetString r 1)
       (map_modify [] (GetString r 2) (\<lambda>urls. urls @ [GetString r 0])) es"

definition GatherModuleConfig :: "'db driver \<Rightarrow> 'db \<Rightarrow> ModuleConfig \<Rightarrow> ModuleConfig" where
  "GatherModuleConfig drv db config =
     (let c1 = GatherModuleConfig_row drv db config;
          c2 = (if \<not> PrepareSelect drv kSelectEndpoints db then c1
                else c1\<lparr>endpoints :=
                  foldl GatherModuleConfig_endpoint (endpoints c1) (Rows drv kSelectEndpoints [] db)\<rparr>);
          c3 = (if \<not> PrepareSelect drv kSelectNotificationsPerMin db then c2
                else c2\<lparr>notifications_per_minute_by_priority :=
                  foldl (\<lambda>m r. map_assign (GetString r 0) (GetInteger r 1) m)
                    (notifications_per_minute_by_priority c2)
                    (Rows drv kSelectNotificationsPerMin [] db)\<rparr>)
      in if \<not> PrepareSelect drv kSelectSecondsBetweenRetries db then c3
         else c3\<lparr>seconds_between_retries :=
           foldl (\<lambda>xs r. xs @ [GetInteger r 0]) (seconds_between_retries c3)
             (Rows drv kSelectSecondsBetweenRetries [] db)\<rparr>)"

definition GatherUsageAndErrorCounts ::
  "'db driver \<Rightarrow> 'db \<Rightarrow> UsageAndErrorCounts \<Rightarrow> bool \<times> UsageAndErrorCounts" where
  "GatherUsageAndErrorCounts drv db counts =
     (if PrepareSelect drv kSelectAppLevels db
      then (True,
            foldl (\<lambda>c r. c\<lparr>app_level :=
                     Some (map_assign (GetString r 0) \<lparr> app_level_initialized = True \<rparr>
                             (deref_list (app_level c)))\<rparr>)
              counts (Rows drv kSelectAppLevels [] db))
      else (True, counts))"

definition GatherDeviceData ::
  "'db driver \<Rightarrow> 'db \<Rightarrow> DeviceParams cmap option \<Rightarrow> DeviceParams cmap option" where
  "GatherDeviceData drv db data =
     (let data1 = Some (deref_list data)
      in if PrepareSelect drv kSelectDeviceData db
         then foldl (\<lambda>d r. Some (map_assign (GetString r 0) \<lparr> device_params_initialized = True \<rparr>
                                    (deref_list d)))
                data1 (Rows drv kSelectDeviceData [] db)
         else data1)"

text \<open>One row of the nested select over the rpcs of a group.\<close>

definition GatherFunctionalGroupings_rpc ::
  "('pri, 'hmi, 'par, 'aht, 'rqt) enums \<Rightarrow> ('hmi, 'par) Rpcs \<Rightarrow> row \<Rightarrow> ('hmi, 'par) Rpcs" where
  "GatherFunctionalGroupings_rpc en rpcs_tbl r =
     (let t1 =
        (if \<not> IsNull r 1
         then (case EnumFromJsonString (HmiLevel_enum en) (GetString r 1) of
                 Some level \<Rightarrow>
                   rpcs_tbl\<lparr>rpcs := (rpcs rpcs_tbl)\<lparr>val :=
                     map_modify new_RpcParameters (GetString r 0)
                       (\<lambda>p. p\<lparr>hmi_levels := InsertUnique level (hmi_levels p)\<rparr>)
                       (val (rpcs rpcs_tbl))\<rparr>\<rparr>
               | None \<Rightarrow> rpcs_tbl)
         else rpcs_tbl)
      in if \<not> IsNull r 2
         then (case EnumFromJsonString (Parameter_enum en) (GetString r 2) of
                 Some param \<Rightarrow>
                   t1\<lparr>rpcs := (rpcs t1)\<lparr>val :=
                     map_modify new_RpcParameters (GetString r 0)
                       (\<lambda>p. p\<lparr>parameters := Some (InsertUnique param (deref_list (parameters p)))\<rparr>)
                       (val (rpcs t1))\<rparr>\<rparr>
               | None \<Rightarrow> t1)
         else t1)"

text \<open>One row of the select over the groups.\<close>

definition GatherFunctionalGroupings_group ::
  "'db driver \<Rightarrow> ('pri, 'hmi, 'par, 'aht, 'rqt) enums \<Rightarrow> 'db \<Rightarrow> ('hmi, 'par) Rpcs cmap \<Rightarrow> row
     \<Rightarrow> ('hmi, 'par) Rpcs cmap" where
  "GatherFunctionalGroupings_group drv en db grps g =
     (let t0 = (if \<not> IsNull g 2 then new_Rpcs\<lparr>user_consent_prompt := Some (GetString g 2)\<rparr>
                else new_Rpcs);
          func_id = GetInteger g 0;
          t1 = foldl (GatherFunctionalGroupings_rpc en) t0
                 (Rows drv kSelectAllRpcs [BindInt func_id] db);
          t2 = (if \<not> (is_null (rpcs t1) \<or> val (rpcs t1) \<noteq> [])
                then t1\<lparr>rpcs := (rpcs t1)\<lparr>is_null := True\<rparr>\<rparr> else t1)
      in map_assign (GetString g 1) t2 grps)"

definition GatherFunctionalGroupings ::
  "'db driver \<Rightarrow> ('pri, 'hmi, 'par, 'aht, 'rqt) enums \<Rightarrow> 'db \<Rightarrow> ('hmi, 'par) Rpcs cmap
     \<Rightarrow> bool \<times> ('hmi, 'par) Rpcs cmap" where
  "GatherFunctionalGroupings drv en db grps =
     (if \<not> PrepareSelect drv kSelectFunctionalGroups db then (False, grps)
      else if \<not> PrepareSelect drv kSelectAllRpcs db then (False, grps)
      else (True, foldl (GatherFunctionalGroupings_group drv en db) grps
                    (Rows drv kSelectFunctionalGroups [] db)))"

definition GatherConsumerFriendlyMessages ::
  "'db driver \<Rightarrow> 'db \<Rightarrow> ConsumerFriendlyMessages \<Rightarrow> bool \<times> ConsumerFriendlyMessages" where
  "GatherConsumerFriendlyMessages drv db msgs =
     (if \<not> PrepareSelect drv kSelectUserMsgsVersion db then (False, msgs)
      else (case Rows drv kSelectUserMsgsVersion [] db of
              [] \<Rightarrow> (False, msgs)
            | r # _ \<Rightarrow> (True, msgs\<lparr>version := Some (GetString r 0)\<rparr>)))"

text \<open>The helper selects of an application. A token that does not convert ends the helper.\<close>

fun GatherAppType_rows :: "'e codec \<Rightarrow> row list \<Rightarrow> 'e list option \<Rightarrow> bool \<times> 'e list option" where
  "GatherAppType_rows c [] app_types = (True, app_types)"
| "GatherAppType_rows c (r # rs) app_types =
     (case EnumFromJsonString c (GetString r 0) of
        None \<Rightarrow> (False, app_types)
      | Some type \<Rightarrow> GatherAppType_rows c rs (Some (deref_list app_types @ [type])))"

definition GatherAppType ::
  "'db driver \<Rightarrow> ('pri, 'hmi, 'par, 'aht, 'rqt) enums \<Rightarrow> 'db \<Rightarrow> string \<Rightarrow> 'aht list option
     \<Rightarrow> bool \<times> 'aht list option" where
  "GatherAppType drv en db app_id app_types =
     (if \<not> PrepareSelect drv kSelectAppTypes db then (False, app_types)
      else GatherAppType_rows (AppHMIType_enum en) (Rows drv kSelectAppTypes [SText app_id] db) app_types)"

definition GatherRequestType ::
  "'db driver \<Rightarrow> ('pri, 'hmi, 'par, 'aht, 'rqt) enums \<Rightarrow> 'db \<Rightarrow> string \<Rightarrow> 'rqt list option
     \<Rightarrow> bool \<times> 'rqt list option" where
  "GatherRequestType drv en db app_id request_types =
     (if \<not> PrepareSelect drv kSelectRequestTypes db then (False, request_types)
      else GatherAppType_rows (RequestType_enum en) (Rows drv kSelectRequestTypes [SText app_id] db)
             request_types)"

definition GatherNickName ::
  "'db driver \<Rightarrow> 'db \<Rightarrow> string \<Rightarrow> string list option \<Rightarrow> bool \<times> string list option" where
  "GatherNickName drv db app_id nicks =
     (if \<not> PrepareSelect drv kSelectNicknames db then (False, nicks)
      else (True, foldl (\<lambda>xs r. Some (deref_list xs @ [GetString r 0])) nicks
                    (Rows drv kSelectNicknames [SText app_id] db)))"

definition GatherAppGroup ::
  "'db driver \<Rightarrow> 'db \<Rightarrow> string \<Rightarrow> string list \<Rightarrow> bool \<times> string list" where
  "GatherAppGroup drv db app_id app_groups =
     (if \<not> PrepareSelect drv kSelectAppGroups db then (False, app_groups)
      else (True, foldl (\<lambda>xs r. xs @ [GetString r 0]) app_groups
                    (Rows drv kSelectAppGroups [SText app_id] db)))"

text \<open>
  \<open>IsApplicationRevoked\<close> goes on after a failed \<^verbatim>\<open>Prepare\<close> (it only logs), so its
  result rests on \<^verbatim>\<open>Exec\<close> alone.
\<close>

definition IsApplicationRevoked :: "'db driver \<Rightarrow> 'db \<Rightarrow> string \<Rightarrow> bool" where
  "IsApplicationRevoked drv db app_id =
     (if \<not> SelectOk drv kSelectApplicationRevoked [SText app_id] db then False
      else let r = current_row (Rows drv kSelectApplicationRevoked [SText app_id] db)
           in if IsNull r 0 then False else GetBoolean r 0)"

definition IsDefaultPolicy :: "'db driver \<Rightarrow> 'db \<Rightarrow> string \<Rightarrow> bool" where
  "IsDefaultPolicy drv db app_id =
     (if \<not> PrepareSelect drv kSelectApplicationIsDefault db then False
      else if \<not> SelectOk drv kSelectApplicationIsDefault [SText app_id] db then False
      else let r = current_row (Rows drv kSelectApplicationIsDefault [SText app_id] db)
           in if IsNull r 0 then False else GetBoolean r 0)"

definition IsPredataPolicy :: "'db driver \<Rightarrow> 'db \<Rightarrow> string \<Rightarrow> bool" where
  "IsPredataPolicy drv db app_id = False"


text \<open>A delivered row whose token does not convert.\<close>

definition unknown_token :: "'e codec \<Rightarrow> row list \<Rightarrow> bool" where
  "unknown_token c rows = list_ex (\<lambda>r. EnumFromJsonString c (GetString r 0) = None) rows"

text \<open>\<^verbatim>\<open>apps[app_id].set_to_string(s)\<close>\<close>

definition set_to_string ::
  "string \<Rightarrow> string \<Rightarrow> ('pri, 'aht, 'rqt) AppPolicy cmap \<Rightarrow> ('pri, 'aht, 'rqt) AppPolicy cmap" where
  "set_to_string app_id s m = map_modify new_AppPolicy app_id (\<lambda>v. v\<lparr>predefined_string := s\<rparr>) m"

text \<open>\<^verbatim>\<open>apps[app_id] = params\<close>: the content is replaced, the predefined string stays.\<close>

definition assign_params ::
  "string \<Rightarrow> ('pri, 'aht, 'rqt) ApplicationParams Nullable \<Rightarrow> ('pri, 'aht, 'rqt) AppPolicy cmap
     \<Rightarrow> ('pri, 'aht, 'rqt) AppPolicy cmap" where
  "assign_params app_id params m = map_modify new_AppPolicy app_id (\<lambda>v. v\<lparr>base := params\<rparr>) m"

text \<open>
  One round of the loop of \<open>GatherApplicationPoliciesSection\<close>. The flag is false when the
  round leaves the function by \<^verbatim>\<open>return false\<close>.
\<close>

definition GatherApplicationPoliciesSection_row ::
  "'db driver \<Rightarrow> ('pri, 'hmi, 'par, 'aht, 'rqt) enums \<Rightarrow> 'db
     \<Rightarrow> ('pri, 'aht, 'rqt) ApplicationPoliciesSection \<Rightarrow> row
     \<Rightarrow> bool \<times> ('pri, 'aht, 'rqt) ApplicationPoliciesSection" where
  "GatherApplicationPoliciesSection_row drv en db policies r =
     (let params = new_ApplicationParams;
          app_id = GetString r 0
      in if IsApplicationRevoked drv db app_id
         then (True, policies\<lparr>apps := assign_params app_id (params\<lparr>is_null := True\<rparr>) (apps policies)\<rparr>)
         else
           let p1 = (if IsDefaultPolicy drv db app_id
                     then policies\<lparr>apps := set_to_string app_id kDefaultId (apps policies)\<rparr>
                     else policies);
               p2 = (if IsPredataPolicy drv db app_id
                     then p1\<lparr>apps := set_to_string app_id kPreDataConsentId (apps p1)\<rparr>
                     else p1)
           in if kDeviceId = app_id
              then (True, p2\<lparr>device := (device p2)
                      \<lparr>device_priority := EnumFromJsonString (Priority_enum en) (GetString r 1)\<rparr>\<rparr>)
              else
                let v1 = (val params)
                      \<lparr> priority := EnumFromJsonString (Priority_enum en) (GetString r 1),
                        memory_kb := Some (GetInteger r 2),
                        heart_beat_timeout_ms := Some (GetUInteger r 3) \<rparr>;
                    v2 = (if \<not> IsNull r 3 then v1\<lparr>certificate := Some (GetString r 4)\<rparr> else v1)
                in (case GatherAppGroup drv db app_id (groups v2) of
                      (False, _) \<Rightarrow> (False, p2)
                    | (True, gs) \<Rightarrow>
                   (case GatherNickName drv db app_id (nicknames v2) of
                      (False, _) \<Rightarrow> (False, p2)
                    | (True, ns) \<Rightarrow>
                   (case GatherAppType drv en db app_id (AppHMIType v2) of
                      (False, _) \<Rightarrow> (False, p2)
                    | (True, ts) \<Rightarrow>
                   (case GatherRequestType drv en db app_id (RequestType v2) of
                      (False, _) \<Rightarrow> (False, p2)
                    | (True, rs) \<Rightarrow>
                        (True, p2\<lparr>apps := assign_params app_id
                           (params\<lparr>val := v2\<lparr>groups := gs, nicknames := ns, AppHMIType := ts,
                                               RequestType := rs\<rparr>\<rparr>)
                           (apps p2)\<rparr>))))))"

fun GatherApplicationPoliciesSection_rows ::
  "'db driver \<Rightarrow> ('pri, 'hmi, 'par, 'aht, 'rqt) enums \<Rightarrow> 'db \<Rightarrow> row list
     \<Rightarrow> ('pri, 'aht, 'rqt) ApplicationPoliciesSection
     \<Rightarrow> bool \<times> ('pri, 'aht, 'rqt) ApplicationPoliciesSection" where
  "GatherApplicationPoliciesSection_rows drv en db [] policies = (True, policies)"
| "GatherApplicationPoliciesSection_rows drv en db (r # rs) policies =
     (case GatherApplicationPoliciesSection_row drv en db policies r of
        (False, p) \<Rightarrow> (False, p)
      | (True, p) \<Rightarrow> GatherApplicationPoliciesSection_rows drv en db rs p)"

definition GatherApplicationPoliciesSection ::
  "'db driver \<Rightarrow> ('pri, 'hmi, 'par, 'aht, 'rqt) enums \<Rightarrow> 'db
     \<Rightarrow> ('pri, 'aht, 'rqt) ApplicationPoliciesSection
     \<Rightarrow> bool \<times> ('pri, 'aht, 'rqt) ApplicationPoliciesSection" where
  "GatherApplicationPoliciesSection drv en db policies =
     (if \<not> PrepareSelect drv kSelectAppPolicies db then (False, policies)
      else GatherApplicationPoliciesSection_rows drv en db (Rows drv kSelectAppPolicies [] db) policies)"

text \<open>\<open>GenerateSnapshot\<close> fills a fresh table and does not look at what the parts return.\<close>

definition GenerateSnapshot ::
  "'db driver \<Rightarrow> ('pri, 'hmi, 'par, 'aht, 'rqt) enums \<Rightarrow> 'db \<Rightarrow> ('pri, 'hmi, 'par, 'aht, 'rqt) Table" where
  "GenerateSnapshot drv en db =
     (let t0 = new_Table;
          t1 = t0\<lparr>module_meta := GatherModuleMeta drv db (module_meta t0)\<rparr>;
          t2 = t1\<lparr>module_config := GatherModuleConfig drv db (module_config t1)\<rparr>;
          t3 = t2\<lparr>usage_and_error_counts :=
                 snd (GatherUsageAndErrorCounts drv db (usage_and_error_counts t2))\<rparr>;
          t4 = t3\<lparr>device_data := GatherDeviceData drv db (device_data t3)\<rparr>;
          t5 = t4\<lparr>functional_groupings :=
                 snd (GatherFunctionalGroupings drv en db (functional_groupings t4))\<rparr>;
          t6 = t5\<lparr>consumer_friendly_messages :=
                 snd (GatherConsumerFriendlyMessages drv db (consumer_friendly_messages t5))\<rparr>
      in t6\<lparr>app_policies_section :=
              snd (GatherApplicationPoliciesSection drv en db (app_policies_section t6))\<rparr>)"

section \<open>Persistence engine: saving\<close>

text \<open>
  A writing function returns its result and the store it leaves behind, also when it
  fails: what was written before the failure stays written. \<open>then_do\<close> goes on after a
  success (the code returns false otherwise) and \<open>for_each\<close> is a loop whose body returns
  false from the function when a step fails.
\<close>

definition then_do :: "bool \<times> 'db \<Rightarrow> ('db \<Rightarrow> bool \<times> 'db) \<Rightarrow> bool \<times> 'db" where
  "then_do r f = (case r of (False, db) \<Rightarrow> (False, db) | (True, db) \<Rightarrow> f db)"

fun for_each :: "('a \<Rightarrow> 'db \<Rightarrow> bool \<times> 'db) \<Rightarrow> 'a list \<Rightarrow> 'db \<Rightarrow> bool \<times> 'db" where
  "for_each f [] db = (True, db)"
| "for_each f (x # xs) db = then_do (f x db) (for_each f xs)"

definition BindString :: "string option \<Rightarrow> sqlval" where
  "BindString s = (case s of None \<Rightarrow> SNull | Some v \<Rightarrow> SText v)"

text \<open>
  \<^verbatim>\<open>CacheManager::GenerateHash\<close> is not part of the sources at hand; the hash is the
  parameter \<open>GenerateHash\<close>, a function from strings to C \<^verbatim>\<open>int\<close>. \<open>abs_int\<close> is
  \<^verbatim>\<open>abs\<close> on \<^verbatim>\<open>int\<close> (the negation wraps for the least value).
\<close>

definition abs_int :: "int32 \<Rightarrow> int32" where
  "abs_int w = (if sint w < 0 then - w else w)"

text \<open>The body of the loop over the hmi levels of an rpc.\<close>

definition SaveRpcs_hmi ::
  "'db driver \<Rightarrow> ('pri, 'hmi, 'par, 'aht, 'rqt) enums \<Rightarrow> int \<Rightarrow> string
     \<Rightarrow> ('hmi, 'par) RpcParameters \<Rightarrow> 'hmi \<Rightarrow> 'db \<Rightarrow> bool \<times> 'db" where
  "SaveRpcs_hmi drv en group_id name rpc hmi db =
     (if deref_list (parameters rpc) \<noteq> []
      then for_each
        (\<lambda>ps. Exec drv kInsertRpcWithParameter
           [SText name, SText (EnumToJsonString (HmiLevel_enum en) hmi),
            SText (EnumToJsonString (Parameter_enum en) ps), SInt group_id])
        (deref_list (parameters rpc)) db
      else Exec drv kInsertRpc
           [SText name, SText (EnumToJsonString (HmiLevel_enum en) hmi), SInt group_id] db)"

text \<open>The body of the loop over the rpcs of a group.\<close>

definition SaveRpcs_rpc ::
  "'db driver \<Rightarrow> ('pri, 'hmi, 'par, 'aht, 'rqt) enums \<Rightarrow> int
     \<Rightarrow> string \<times> ('hmi, 'par) RpcParameters \<Rightarrow> 'db \<Rightarrow> bool \<times> 'db" where
  "SaveRpcs_rpc drv en group_id it db =
     for_each (SaveRpcs_hmi drv en group_id (fst it) (snd it)) (hmi_levels (snd it)) db"

definition SaveRpcs ::
  "'db driver \<Rightarrow> ('pri, 'hmi, 'par, 'aht, 'rqt) enums \<Rightarrow> int
     \<Rightarrow> ('hmi, 'par) RpcParameters cmap Nullable \<Rightarrow> 'db \<Rightarrow> bool \<times> 'db" where
  "SaveRpcs drv en group_id rpc_map db =
     (if \<not> PrepareUpdate drv kInsertRpc db \<or> \<not> PrepareUpdate drv kInsertRpcWithParameter db
      then (False, db)
      else for_each (SaveRpcs_rpc drv en group_id) (val rpc_map) db)"

text \<open>The body of the loop over the groups.\<close>

definition SaveFunctionalGroupings_group ::
  "'db driver \<Rightarrow> ('pri, 'hmi, 'par, 'aht, 'rqt) enums \<Rightarrow> (string \<Rightarrow> int32)
     \<Rightarrow> string \<times> ('hmi, 'par) Rpcs \<Rightarrow> 'db \<Rightarrow> bool \<times> 'db" where
  "SaveFunctionalGroupings_group drv en GenerateHash it db =
     (let id = sint (abs_int (GenerateHash (fst it)))
      in then_do
           (Exec drv kInsertFunctionalGroup
              [SInt id, SText (fst it), BindString (user_consent_prompt (snd it))] db)
           (SaveRpcs drv en id (rpcs (snd it))))"

definition SaveFunctionalGroupings ::
  "'db driver \<Rightarrow> ('pri, 'hmi, 'par, 'aht, 'rqt) enums \<Rightarrow> (string \<Rightarrow> int32)
     \<Rightarrow> ('hmi, 'par) Rpcs cmap \<Rightarrow> 'db \<Rightarrow> bool \<times> 'db" where
  "SaveFunctionalGroupings drv en GenerateHash grps db =
     then_do (Exec drv kDeleteRpc [] db) (\<lambda>db1.
     then_do (Exec drv kDeleteFunctionalGroup [] db1) (\<lambda>db2.
       if \<not> PrepareUpdate drv kInsertFunctionalGroup db2 then (False, db2)
       else for_each (SaveFunctionalGroupings_group drv en GenerateHash) grps db2))"

definition SaveAppGroup :: "'db driver \<Rightarrow> string \<Rightarrow> string list \<Rightarrow> 'db \<Rightarrow> bool \<times> 'db" where
  "SaveAppGroup drv app_id app_groups db =
     (if \<not> PrepareUpdate drv kInsertAppGroup db then (False, db)
      else for_each (\<lambda>g. Exec drv kInsertAppGroup [SText app_id, SText g]) app_groups db)"

definition SaveNickname :: "'db driver \<Rightarrow> string \<Rightarrow> string list \<Rightarrow> 'db \<Rightarrow> bool \<times> 'db" where
  "SaveNickname drv app_id nicks db =
     (if \<not> PrepareUpdate drv kInsertNickname db then (False, db)
      else for_each (\<lambda>n. Exec drv kInsertNickname [SText app_id, SText n]) nicks db)"

definition SaveAppType ::
  "'db driver \<Rightarrow> ('pri, 'hmi, 'par, 'aht, 'rqt) enums \<Rightarrow> string \<Rightarrow> 'aht list \<Rightarrow> 'db \<Rightarrow> bool \<times> 'db" where
  "SaveAppType drv en app_id types db =
     (if \<not> PrepareUpdate drv kInsertAppType db then (False, db)
      else for_each
        (\<lambda>t. Exec drv kInsertAppType [SText app_id, SText (EnumToJsonString (AppHMIType_enum en) t)])
        types db)"

definition SaveRequestType ::
  "'db driver \<Rightarrow> ('pri, 'hmi, 'par, 'aht, 'rqt) enums \<Rightarrow> string \<Rightarrow> 'rqt list \<Rightarrow> 'db \<Rightarrow> bool \<times> 'db" where
  "SaveRequestType drv en app_id types db =
     (if \<not> PrepareUpdate drv kInsertRequestType db then (False, db)
      else for_each
        (\<lambda>t. Exec drv kInsertRequestType [SText app_id, SText (EnumToJsonString (RequestType_enum en) t)])
        types db)"

definition SetIsDefault :: "'db driver \<Rightarrow> string \<Rightarrow> bool \<Rightarrow> 'db \<Rightarrow> bool \<times> 'db" where
  "SetIsDefault drv app_id is_default db =
     (if \<not> PrepareUpdate drv kUpdateIsDefault db then (False, db)
      else Exec drv kUpdateIsDefault [BindBool is_default, SText app_id] db)"


text \<open>\<open>SetPreloaded\<close> returns nothing; a failure is only logged.\<close>

definition SetPreloaded :: "'db driver \<Rightarrow> bool \<Rightarrow> 'db \<Rightarrow> 'db" where
  "SetPreloaded drv v db =
     (if \<not> PrepareUpdate drv kUpdatePreloaded db then db
      else snd (Exec drv kUpdatePreloaded [BindBool v] db))"

definition copy_bool :: "row \<Rightarrow> nat \<Rightarrow> sqlval" where
  "copy_bool r i = (if IsNull r i then SNull else BindBool (GetBoolean r i))"

definition copy_string :: "row \<Rightarrow> nat \<Rightarrow> sqlval" where
  "copy_string r i = (if IsNull r i then SNull else SText (GetString r i))"

definition CopyApplication :: "'db driver \<Rightarrow> string \<Rightarrow> string \<Rightarrow> 'db \<Rightarrow> bool \<times> 'db" where
  "CopyApplication drv source destination db =
     (if \<not> PrepareSelect drv kSelectApplicationFull db then (False, db)
      else if \<not> SelectOk drv kSelectApplicationFull [SText source] db then (False, db)
      else if \<not> PrepareUpdate drv kInsertApplicationFull db then (False, db)
      else
        let r = current_row (Rows drv kSelectApplicationFull [SText source] db)
        in Exec drv kInsertApplicationFull
             [SText destination, copy_bool r 0, copy_bool r 1, copy_string r 2, copy_string r 3,
              copy_bool r 4, copy_bool r 5, copy_bool r 6, BindInt (GetInteger r 7),
              BindInt (GetInteger r 8), copy_string r 9] db)"

definition SetDefaultPolicy :: "'db driver \<Rightarrow> string \<Rightarrow> 'db \<Rightarrow> bool \<times> 'db" where
  "SetDefaultPolicy drv app_id db =
     (if \<not> PrepareUpdate drv kDeleteAppGroupByApplicationId db then (False, db)
      else
        then_do (Exec drv kDeleteAppGroupByApplicationId [SText app_id] db) (\<lambda>db1.
        then_do (CopyApplication drv kDefaultId app_id db1) (\<lambda>db2.
          let db3 = SetPreloaded drv False db2
          in (case GatherAppGroup drv db3 kDefaultId [] of
                (False, _) \<Rightarrow> (False, db3)
              | (True, default_groups) \<Rightarrow>
                  then_do (SaveAppGroup drv app_id default_groups db3)
                    (SetIsDefault drv app_id True)))))"

definition SaveSpecificAppPolicy ::
  "'db driver \<Rightarrow> ('pri, 'hmi, 'par, 'aht, 'rqt) enums \<Rightarrow> string \<times> ('pri, 'aht, 'rqt) AppPolicy
     \<Rightarrow> 'db \<Rightarrow> bool \<times> 'db" where
  "SaveSpecificAppPolicy drv en app db =
     (if \<not> PrepareUpdate drv kInsertApplication db then (False, db)
      else
        let p = val (base (snd app))
        in then_do
             (Exec drv kInsertApplication
                [SText (fst app),
                 SText (EnumToJsonString_field (Priority_enum en) (priority p)),
                 BindBool (is_null (base (snd app))),
                 BindInt (deref_int (memory_kb p)),
                 BindUInt (deref_int (heart_beat_timeout_ms p)),
                 BindString (certificate p)] db)
             (\<lambda>db1.
                if is_string (snd app) \<and> kDefaultId = predefined_string (snd app)
                then SetDefaultPolicy drv (fst app) db1
                else
                  then_do (SaveAppGroup drv (fst app) (groups p) db1) (\<lambda>db2.
                  then_do (SaveNickname drv (fst app) (deref_list (nicknames p)) db2) (\<lambda>db3.
                  then_do (SaveAppType drv en (fst app) (deref_list (AppHMIType p)) db3)
                    (SaveRequestType drv en (fst app) (deref_list (RequestType p)))))))"

definition SaveDevicePolicy ::
  "'db driver \<Rightarrow> ('pri, 'hmi, 'par, 'aht, 'rqt) enums \<Rightarrow> 'pri DevicePolicy \<Rightarrow> 'db \<Rightarrow> bool \<times> 'db" where
  "SaveDevicePolicy drv en dev db =
     (if \<not> PrepareUpdate drv kInsertApplication db then (False, db)
      else Exec drv kInsertApplication
             [SText kDeviceId,
              SText (EnumToJsonString_field (Priority_enum en) (device_priority dev)),
              BindBool False, SInt 0, SInt 0, SNull] db)"

text \<open>
  Modelled from the spec: \<open>IsPredefinedApp\<close>, which is defined outside the sources at
  hand. The glossary calls predefined the reserved identifiers \<^verbatim>\<open>default\<close>,
  \<^verbatim>\<open>pre_DataConsent\<close> and \<^verbatim>\<open>device\<close>.
\<close>

definition IsPredefinedApp :: "string \<times> 'a \<Rightarrow> bool" where
  "IsPredefinedApp app = (fst app = kDefaultId \<or> fst app = kPreDataConsentId \<or> fst app = kDeviceId)"

text \<open>\<^verbatim>\<open>apps.find(id)\<close>, followed by saving the entry when there is one.\<close>

definition save_if_found ::
  "'db driver \<Rightarrow> ('pri, 'hmi, 'par, 'aht, 'rqt) enums \<Rightarrow> string \<Rightarrow> ('pri, 'aht, 'rqt) AppPolicy cmap
     \<Rightarrow> 'db \<Rightarrow> bool \<times> 'db" where
  "save_if_found drv en app_id m db =
     (case map_of m app_id of
        None \<Rightarrow> (True, db)
      | Some v \<Rightarrow> SaveSpecificAppPolicy drv en (app_id, v) db)"

text \<open>The body of the loop over the applications that are not predefined.\<close>

definition SaveApplicationPoliciesSection_app ::
  "'db driver \<Rightarrow> ('pri, 'hmi, 'par, 'aht, 'rqt) enums \<Rightarrow> string \<times> ('pri, 'aht, 'rqt) AppPolicy
     \<Rightarrow> 'db \<Rightarrow> bool \<times> 'db" where
  "SaveApplicationPoliciesSection_app drv en it db =
     (if IsPredefinedApp it then (True, db) else SaveSpecificAppPolicy drv en it db)"

definition SaveApplicationPoliciesSection ::
  "'db driver \<Rightarrow> ('pri, 'hmi, 'par, 'aht, 'rqt) enums
     \<Rightarrow> ('pri, 'aht, 'rqt) ApplicationPoliciesSection \<Rightarrow> 'db \<Rightarrow> bool \<times> 'db" where
  "SaveApplicationPoliciesSection drv en policies db =
     then_do (Exec drv kDeleteAppGroup [] db) (\<lambda>db1.
     then_do (Exec drv kDeleteApplication [] db1) (\<lambda>db2.
     then_do (Exec drv kDeleteRequestType [] db2) (\<lambda>db3.
     then_do (save_if_found drv en kDefaultId (apps policies) db3) (\<lambda>db4.
     then_do (save_if_found drv en kPreDataConsentId (apps policies) db4) (\<lambda>db5.
     then_do (SaveDevicePolicy drv en (device policies) db5)
       (for_each (SaveApplicationPoliciesSection_app drv en) (apps policies)))))))"

definition SaveModuleMeta :: "'db driver \<Rightarrow> ModuleMeta \<Rightarrow> 'db \<Rightarrow> bool \<times> 'db" where
  "SaveModuleMeta drv meta db =
     (if \<not> PrepareUpdate drv kSaveModuleMeta db then (False, db)
      else Exec drv kSaveModuleMeta
             [BindInt (deref_int (pt_exchanged_at_odometer_x meta)),
              BindInt (deref_int (pt_exchanged_x_days_after_epoch meta)),
              BindInt (deref_int (ignition_cycles_since_last_exchange meta))] db)"

definition SaveSecondsBetweenRetries :: "'db driver \<Rightarrow> int32 list \<Rightarrow> 'db \<Rightarrow> bool \<times> 'db" where
  "SaveSecondsBetweenRetries drv seconds db =
     then_do (Exec drv kDeleteSecondsBetweenRetries [] db) (\<lambda>db1.
       if \<not> PrepareUpdate drv kInsertSecondsBetweenRetry db1 then (False, db1)
       else for_each
         (\<lambda>(i, s). Exec drv kInsertSecondsBetweenRetry [SInt (int i), BindInt s])
         (enumerate 0 seconds) db1)"

definition SaveNumberOfNotificationsPerMinute :: "'db driver \<Rightarrow> int32 cmap \<Rightarrow> 'db \<Rightarrow> bool \<times> 'db" where
  "SaveNumberOfNotificationsPerMinute drv notifications db =
     (if \<not> PrepareUpdate drv kInsertNotificationsByPriority db then (False, db)
      else for_each
        (\<lambda>(k, v). Exec drv kInsertNotificationsByPriority [SText k, BindInt v])
        notifications db)"

text \<open>The bodies of the loops over the applications of a service and over the services.\<close>

definition SaveServiceEndpoints_app ::
  "'db driver \<Rightarrow> string \<Rightarrow> string \<times> string list \<Rightarrow> 'db \<Rightarrow> bool \<times> 'db" where
  "SaveServiceEndpoints_app drv service app_it db =
     for_each (\<lambda>url. Exec drv kInsertEndpoint [SText service, SText url, SText (fst app_it)])
       (snd app_it) db"

definition SaveServiceEndpoints_service ::
  "'db driver \<Rightarrow> string \<times> string list cmap \<Rightarrow> 'db \<Rightarrow> bool \<times> 'db" where
  "SaveServiceEndpoints_service drv it db =
     for_each (SaveServiceEndpoints_app drv (fst it)) (snd it) db"

definition SaveServiceEndpoints :: "'db driver \<Rightarrow> string list cmap cmap \<Rightarrow> 'db \<Rightarrow> bool \<times> 'db" where
  "SaveServiceEndpoints drv es db =
     then_do (Exec drv kDeleteEndpoint [] db) (\<lambda>db1.
       if \<not> PrepareUpdate drv kInsertEndpoint db1 then (False, db1)
       else for_each (SaveServiceEndpoints_service drv) es db1)"

definition SaveModuleConfig :: "'db driver \<Rightarrow> ModuleConfig \<Rightarrow> 'db \<Rightarrow> bool \<times> 'db" where
  "SaveModuleConfig drv config db =
     (if \<not> PrepareUpdate drv kUpdateModuleConfig db then (False, db)
      else
        let is_preloaded = (preloaded_pt config \<noteq> None \<and> deref_bool (preloaded_pt config))
        in then_do
             (Exec drv kUpdateModuleConfig
                [BindBool is_preloaded,
                 BindInt (deref_int (exchange_after_x_ignition_cycles config)),
                 BindInt (deref_int (exchange_after_x_kilometers config)),
                 BindInt (deref_int (exchange_after_x_days config)),
                 BindInt (deref_int (timeout_after_x_seconds config)),
                 BindString (vehicle_make config),
                 BindString (vehicle_model config),
                 BindString (vehicle_year config),
                 BindString (preloaded_date config),
                 BindString (module_certificate config)] db)
             (\<lambda>db1.
                then_do (SaveSecondsBetweenRetries drv (seconds_between_retries config) db1) (\<lambda>db2.
                then_do (SaveNumberOfNotificationsPerMinute drv
                           (notifications_per_minute_by_priority config) db2)
                  (SaveServiceEndpoints drv (endpoints config)))))"

definition SaveMessageType :: "'db driver \<Rightarrow> string \<Rightarrow> 'db \<Rightarrow> bool \<times> 'db" where
  "SaveMessageType drv type db =
     (if \<not> PrepareUpdate drv kInsertMessageType db then (False, db)
      else Exec drv kInsertMessageType [SText type] db)"

definition SaveLanguage :: "'db driver \<Rightarrow> string \<Rightarrow> 'db \<Rightarrow> bool \<times> 'db" where
  "SaveLanguage drv code db =
     (if \<not> PrepareUpdate drv kInsertLanguage db then (False, db)
      else Exec drv kInsertLanguage [SText code] db)"

definition SaveMessageString :: "'db driver \<Rightarrow> string \<Rightarrow> string \<Rightarrow> MessageString \<Rightarrow> 'db \<Rightarrow> bool \<times> 'db" where
  "SaveMessageString drv type lang strings db = (True, db)"

text \<open>The bodies of the loops over the languages of a message type and over the types.\<close>

definition SaveConsumerFriendlyMessages_language ::
  "'db driver \<Rightarrow> string \<Rightarrow> string \<times> MessageString \<Rightarrow> 'db \<Rightarrow> bool \<times> 'db" where
  "SaveConsumerFriendlyMessages_language drv type lang_it db =
     then_do (SaveLanguage drv (fst lang_it) db)
       (SaveMessageString drv type (fst lang_it) (snd lang_it))"

definition SaveConsumerFriendlyMessages_type ::
  "'db driver \<Rightarrow> string \<times> MessageLanguages \<Rightarrow> 'db \<Rightarrow> bool \<times> 'db" where
  "SaveConsumerFriendlyMessages_type drv it db =
     then_do (SaveMessageType drv (fst it) db)
       (for_each (SaveConsumerFriendlyMessages_language drv (fst it)) (languages (snd it)))"

definition SaveConsumerFriendlyMessages ::
  "'db driver \<Rightarrow> ConsumerFriendlyMessages \<Rightarrow> 'db \<Rightarrow> bool \<times> 'db" where
  "SaveConsumerFriendlyMessages drv msgs db =
     (if messages msgs \<noteq> None
      then
        then_do (Exec drv kDeleteMessageString [] db) (\<lambda>db1.
          if PrepareUpdate drv kUpdateVersion db1
          then then_do (Exec drv kUpdateVersion [SText (deref_string (version msgs))] db1)
                 (for_each (SaveConsumerFriendlyMessages_type drv) (deref_list (messages msgs)))
          else (False, db1))
      else (True, db))"

definition SaveDeviceData :: "'db driver \<Rightarrow> DeviceParams cmap \<Rightarrow> 'db \<Rightarrow> bool \<times> 'db" where
  "SaveDeviceData drv devices db =
     (if \<not> PrepareUpdate drv kInsertDeviceData db then (False, db)
      else for_each (\<lambda>(k, v). Exec drv kInsertDeviceData [SText k]) devices db)"

text \<open>
  \<open>SaveUsageAndErrorCounts\<close> also marks its argument initialised through a
  \<^verbatim>\<open>const_cast\<close>; the store does not see that.
\<close>

definition SaveUsageAndErrorCounts :: "'db driver \<Rightarrow> UsageAndErrorCounts \<Rightarrow> 'db \<Rightarrow> bool \<times> 'db" where
  "SaveUsageAndErrorCounts drv counts db =
     then_do (Exec drv kDeleteAppLevel [] db) (\<lambda>db1.
       if \<not> PrepareUpdate drv kInsertAppLevel db1 then (False, db1)
       else for_each (\<lambda>(k, v). Exec drv kInsertAppLevel [SText k]) (deref_list (app_level counts)) db1)"

subsection \<open>The transaction of Save\<close>

text \<open>
  Modelled from the spec: \<^verbatim>\<open>BeginTransaction\<close>, \<^verbatim>\<open>CommitTransaction\<close> and
  \<^verbatim>\<open>RollbackTransaction\<close> of the storage driver (section 4.1), whose code is not part of
  the sources at hand. The database handle holds the store and, inside a transaction, the
  store as it was when the transaction began; a rollback puts that store back.
\<close>

record 'db SQLDatabase =
  store :: 'db
  began_at :: "'db option"

definition BeginTransaction :: "'db SQLDatabase \<Rightarrow> 'db SQLDatabase" where
  "BeginTransaction h = h\<lparr>began_at := Some (store h)\<rparr>"

definition CommitTransaction :: "'db SQLDatabase \<Rightarrow> 'db SQLDatabase" where
  "CommitTransaction h = h\<lparr>began_at := None\<rparr>"

definition RollbackTransaction :: "'db SQLDatabase \<Rightarrow> 'db SQLDatabase" where
  "RollbackTransaction h =
     (case began_at h of None \<Rightarrow> h | Some db \<Rightarrow> \<lparr> store = db, began_at = None \<rparr>)"

text \<open>A sub-save runs on the store of the handle.\<close>

definition on_store :: "('db \<Rightarrow> bool \<times> 'db) \<Rightarrow> 'db SQLDatabase \<Rightarrow> bool \<times> 'db SQLDatabase" where
  "on_store f h = (case f (store h) of (ok, db) \<Rightarrow> (ok, h\<lparr>store := db\<rparr>))"

definition Save ::
  "'db driver \<Rightarrow> ('pri, 'hmi, 'par, 'aht, 'rqt) enums \<Rightarrow> (string \<Rightarrow> int32)
     \<Rightarrow> ('pri, 'hmi, 'par, 'aht, 'rqt) Table \<Rightarrow> 'db SQLDatabase \<Rightarrow> bool \<times> 'db SQLDatabase" where
  "Save drv en GenerateHash table h =
     (let h0 = BeginTransaction h in
      case on_store (SaveFunctionalGroupings drv en GenerateHash (functional_groupings table)) h0 of
        (False, h1) \<Rightarrow> (False, RollbackTransaction h1)
      | (True, h1) \<Rightarrow>
      (case on_store (SaveApplicationPoliciesSection drv en (app_policies_section table)) h1 of
        (False, h2) \<Rightarrow> (False, RollbackTransaction h2)
      | (True, h2) \<Rightarrow>
      (case on_store (SaveModuleConfig drv (module_config table)) h2 of
        (False, h3) \<Rightarrow> (False, RollbackTransaction h3)
      | (True, h3) \<Rightarrow>
      (case on_store (SaveConsumerFriendlyMessages drv (consumer_friendly_messages table)) h3 of
        (False, h4) \<Rightarrow> (False, RollbackTransaction h4)
      | (True, h4) \<Rightarrow>
      (case on_store (SaveDeviceData drv (deref_list (device_data table))) h4 of
        (False, h5) \<Rightarrow> (False, RollbackTransaction h5)
      | (True, h5) \<Rightarrow>
      (case on_store (SaveUsageAndErrorCounts drv (usage_and_error_counts table)) h5 of
        (False, h6) \<Rightarrow> (False, RollbackTransaction h6)
      | (True, h6) \<Rightarrow>
      (case on_store (SaveModuleMeta drv (module_meta table)) h6 of
        (False, h7) \<Rightarrow> (False, RollbackTransaction h7)
      | (True, h7) \<Rightarrow> (True, CommitTransaction h7))))))))"

text \<open>
  The contract of \<open>Save\<close> in the words of the specification: the sub-saves run in their
  fixed order, each on the store the one before left; the first failure ends the run.
\<close>

fun run_in_order :: "('db \<Rightarrow> bool \<times> 'db) list \<Rightarrow> 'db \<Rightarrow> 'db option" where
  "run_in_order [] db = Some db"
| "run_in_order (f # fs) db = (case f db of (False, _) \<Rightarrow> None | (True, db1) \<Rightarrow> run_in_order fs db1)"

definition sub_saves ::
  "'db driver \<Rightarrow> ('pri, 'hmi, 'par, 'aht, 'rqt) enums \<Rightarrow> (string \<Rightarrow> int32)
     \<Rightarrow> ('pri, 'hmi, 'par, 'aht, 'rqt) Table \<Rightarrow> ('db \<Rightarrow> bool \<times> 'db) list" where
  "sub_saves drv en GenerateHash table =
     [SaveFunctionalGroupings drv en GenerateHash (functional_groupings table),
      SaveApplicationPoliciesSection drv en (app_policies_section table),
      SaveModuleConfig drv (module_config table),
      SaveConsumerFriendlyMessages drv (consumer_friendly_messages table),
      SaveDeviceData drv (deref_list (device_data table)),
      SaveUsageAndErrorCounts drv (usage_and_error_counts table),
      SaveModuleMeta drv (module_meta table)]"

definition Save_contract ::
  "'db driver \<Rightarrow> ('pri, 'hmi, 'par, 'aht, 'rqt) enums \<Rightarrow> (string \<Rightarrow> int32)
     \<Rightarrow> ('pri, 'hmi, 'par, 'aht, 'rqt) Table \<Rightarrow> 'db \<Rightarrow> bool \<times> 'db" where
  "Save_contract drv en GenerateHash table db =
     (case run_in_order (sub_saves drv en GenerateHash table) db of
        None \<Rightarrow> (False, db)
      | Some db1 \<Rightarrow> (True, db1))"


section \<open>A relational store\<close>

text \<open>
  Modelled from the spec: the statements of the query catalog and the schema
  (\<^verbatim>\<open>sql_pt_queries\<close>), whose text is not part of the sources at hand. The tables are
  those of the data model (section 3); every statement does what its name says, with
  the columns in the order in which the code binds and reads them:
  \<^item> a \<^verbatim>\<open>kDelete...\<close> statement empties its table and a \<^verbatim>\<open>kSelect...\<close> statement reads
    the rows of its table in the order of insertion, restricted by the bound keys;
  \<^item> an insert appends a row. The primary key of a functional group is its id, so
    inserting a second group with the same id fails. The tables that \<open>Save\<close> does not
    empty first take an insert of a row that exists as done (\<^verbatim>\<open>application\<close>,
    \<^verbatim>\<open>nickname\<close>, \<^verbatim>\<open>app_type\<close>, \<^verbatim>\<open>device\<close>, \<^verbatim>\<open>message_type\<close>, \<^verbatim>\<open>language\<close>) or replace the
    row with the same key (\<^verbatim>\<open>notifications_by_priority\<close>, and \<^verbatim>\<open>application\<close> under
    \<open>kInsertApplicationFull\<close>, which \<open>CopyApplication\<close> runs for a row that exists);
  \<^item> \<open>kInsertAppGroup\<close> is bound to a group name and stores the id of the group of
    that name, and \<open>kSelectAppGroups\<close> reads the names back through the ids;
  \<^item> \<^verbatim>\<open>module_meta\<close>, \<^verbatim>\<open>module_config\<close> and \<^verbatim>\<open>version\<close> hold the singleton rows that the
    seed insert creates and the update statements overwrite;
  \<^item> \<^verbatim>\<open>memory_kb\<close> and \<^verbatim>\<open>heart_beat_timeout_ms\<close> are never NULL (\<open>CopyApplication\<close> copies
    them without a test); no other constraint is enforced.
\<close>

record application_row =
  col_id :: string
  col_keep_context :: sqlval
  col_steal_focus :: sqlval
  col_default_hmi :: sqlval
  col_priority_value :: sqlval
  col_is_revoked :: sqlval
  col_is_default :: sqlval
  col_is_predata :: sqlval
  col_memory_kb :: int
  col_heart_beat_timeout_ms :: int
  col_certificate :: sqlval

record database =
  has_schema :: bool
  is_first_run :: bool
  module_meta_t :: "row list"
  module_config_t :: "row list"
  version_t :: "string list"
  functional_group_t :: "(int \<times> string \<times> sqlval) list"
  rpc_t :: "(string \<times> sqlval \<times> sqlval \<times> int) list"
  application_t :: "application_row list"
  app_group_t :: "(string \<times> int) list"
  nickname_t :: "(string \<times> string) list"
  app_type_t :: "(string \<times> string) list"
  request_type_t :: "(string \<times> string) list"
  endpoint_t :: "(string \<times> string \<times> string) list"
  notifications_by_priority_t :: "(string \<times> int) list"
  seconds_between_retry_t :: "(int \<times> int) list"
  device_t :: "string list"
  app_level_t :: "string list"
  message_type_t :: "string list"
  language_t :: "string list"
  message_t :: "(string \<times> string) list"

definition empty_database :: database where
  "empty_database =
     \<lparr> has_schema = False, is_first_run = True, module_meta_t = [], module_config_t = [],
       version_t = [], functional_group_t = [], rpc_t = [], application_t = [],
       app_group_t = [], nickname_t = [], app_type_t = [], request_type_t = [],
       endpoint_t = [], notifications_by_priority_t = [], seconds_between_retry_t = [],
       device_t = [], app_level_t = [], message_type_t = [], language_t = [],
       message_t = [] \<rparr>"

definition new_application_row :: "string \<Rightarrow> application_row" where
  "new_application_row a =
     \<lparr> col_id = a, col_keep_context = SNull, col_steal_focus = SNull, col_default_hmi = SNull,
       col_priority_value = SNull, col_is_revoked = SNull, col_is_default = SNull, col_is_predata = SNull,
       col_memory_kb = 0, col_heart_beat_timeout_ms = 0, col_certificate = SNull \<rparr>"

text \<open>
  The seed insert: the singleton rows of module meta, module config (which is then not
  on its first run) and version and the row of the device policy, each where there is
  none yet.
\<close>

definition seed :: "database \<Rightarrow> database" where
  "seed db = db
     \<lparr> is_first_run := (if module_config_t db = [] then False else is_first_run db),
       module_meta_t := (if module_meta_t db = [] then [[SInt 0, SInt 0, SInt 0]] else module_meta_t db),
       module_config_t :=
         (if module_config_t db = []
          then [[SInt 1, SInt 0, SInt 0, SInt 0, SInt 0, SNull, SNull, SNull, SNull, SNull]]
          else module_config_t db),
       version_t := (if version_t db = [] then [''0''] else version_t db),
       application_t :=
         (if kDeviceId \<in> set (map col_id (application_t db)) then application_t db
          else application_t db @ [new_application_row kDeviceId]) \<rparr>"

definition insert_or_ignore :: "'a \<Rightarrow> 'a list \<Rightarrow> 'a list" where
  "insert_or_ignore x xs = (if x \<in> set xs then xs else xs @ [x])"

definition group_names :: "(int \<times> string \<times> sqlval) list \<Rightarrow> int \<Rightarrow> row list" where
  "group_names fg gid =
     (let ms = filter (\<lambda>g. fst g = gid) fg
      in if ms = [] then [[SNull]] else map (\<lambda>g. [SText (fst (snd g))]) ms)"

definition sqlite_rows :: "select_sql \<Rightarrow> sqlval list \<Rightarrow> database \<Rightarrow> row list" where
  "sqlite_rows q binds db =
     (case q of
        kSelectRpc \<Rightarrow>
          (case binds of
             [SText a, SText h, SText n] \<Rightarrow>
               concat (map (\<lambda>(name, level, param, gid).
                              if level = SText h \<and> name = n
                              then map (\<lambda>g. [param]) (filter (\<lambda>g. g = (a, gid)) (app_group_t db))
                              else [])
                         (rpc_t db))
           | _ \<Rightarrow> [])
      | kSelectKilometers \<Rightarrow>
          concat (map (\<lambda>c. map (\<lambda>m. [col c 2, col m 0]) (module_meta_t db)) (module_config_t db))
      | kSelectDays \<Rightarrow>
          concat (map (\<lambda>c. map (\<lambda>m. [col c 3, col m 1]) (module_meta_t db)) (module_config_t db))
      | kCheckPgNumber \<Rightarrow> [[SInt (if has_schema db then 1 else 0)]]
      | kCheckDBIntegrity \<Rightarrow> [[SText ''ok'']]
      | kIsFirstRun \<Rightarrow> [[BindBool (is_first_run db)]]
      | kSelectModuleMeta \<Rightarrow> module_meta_t db
      | kSelectModuleConfig \<Rightarrow> module_config_t db
      | kSelectEndpoints \<Rightarrow> map (\<lambda>(s, u, a). [SText u, SText s, SText a]) (endpoint_t db)
      | kSelectNotificationsPerMin \<Rightarrow>
          map (\<lambda>(k, v). [SText k, SInt v]) (notifications_by_priority_t db)
      | kSelectSecondsBetweenRetries \<Rightarrow> map (\<lambda>(i, v). [SInt v]) (seconds_between_retry_t db)
      | kSelectAppLevels \<Rightarrow> map (\<lambda>a. [SText a]) (app_level_t db)
      | kSelectDeviceData \<Rightarrow> map (\<lambda>d. [SText d]) (device_t db)
      | kSelectFunctionalGroups \<Rightarrow>
          map (\<lambda>(gid, name, prompt). [SInt gid, SText name, prompt]) (functional_group_t db)
      | kSelectAllRpcs \<Rightarrow>
          (case binds of
             [SInt g] \<Rightarrow>
               map (\<lambda>(name, level, param, gid). [SText name, level, param])
                 (filter (\<lambda>(name, level, param, gid). gid = g) (rpc_t db))
           | _ \<Rightarrow> [])
      | kSelectUserMsgsVersion \<Rightarrow> map (\<lambda>v. [SText v]) (version_t db)
      | kSelectAppPolicies \<Rightarrow>
          map (\<lambda>a. [SText (col_id a), col_priority_value a, SInt (col_memory_kb a),
                     SInt (col_heart_beat_timeout_ms a), col_certificate a])
            (application_t db)
      | kSelectNicknames \<Rightarrow>
          (case binds of
             [SText a] \<Rightarrow> map (\<lambda>r. [SText (snd r)]) (filter (\<lambda>r. fst r = a) (nickname_t db))
           | _ \<Rightarrow> [])
      | kSelectAppTypes \<Rightarrow>
          (case binds of
             [SText a] \<Rightarrow> map (\<lambda>r. [SText (snd r)]) (filter (\<lambda>r. fst r = a) (app_type_t db))
           | _ \<Rightarrow> [])
      | kSelectRequestTypes \<Rightarrow>
          (case binds of
             [SText a] \<Rightarrow> map (\<lambda>r. [SText (snd r)]) (filter (\<lambda>r. fst r = a) (request_type_t db))
           | _ \<Rightarrow> [])
      | kSelectAppGroups \<Rightarrow>
          (case binds of
             [SText a] \<Rightarrow>
               concat (map (\<lambda>r. group_names (functional_group_t db) (snd r))
                         (filter (\<lambda>r. fst r = a) (app_group_t db)))
           | _ \<Rightarrow> [])
      | kSelectApplicationRevoked \<Rightarrow>
          (case binds of
             [SText a] \<Rightarrow> map (\<lambda>r. [col_is_revoked r]) (filter (\<lambda>r. col_id r = a) (application_t db))
           | _ \<Rightarrow> [])
      | kSelectApplicationIsDefault \<Rightarrow>
          (case binds of
             [SText a] \<Rightarrow> map (\<lambda>r. [col_is_default r]) (filter (\<lambda>r. col_id r = a) (application_t db))
           | _ \<Rightarrow> [])
      | kSelectApplicationFull \<Rightarrow>
          (case binds of
             [SText a] \<Rightarrow>
               map (\<lambda>r. [col_keep_context r, col_steal_focus r, col_default_hmi r, col_priority_value r,
                          col_is_revoked r, col_is_default r, col_is_predata r, SInt (col_memory_kb r),
                          SInt (col_heart_beat_timeout_ms r), col_certificate r])
                 (filter (\<lambda>r. col_id r = a) (application_t db))
           | _ \<Rightarrow> []))"

text \<open>The writing statements; a statement whose bound values do not fit fails.\<close>

definition sqlite_insert :: "update_sql \<Rightarrow> sqlval list \<Rightarrow> database \<Rightarrow> bool \<times> database" where
  "sqlite_insert q binds db =
     (case (q, binds) of
        (kInsertFunctionalGroup, [SInt gid, SText name, prompt]) \<Rightarrow>
          if gid \<in> set (map fst (functional_group_t db)) then (False, db)
          else (True, db\<lparr>functional_group_t := functional_group_t db @ [(gid, name, prompt)]\<rparr>)
      | (kInsertRpc, [SText name, SText level, SInt gid]) \<Rightarrow>
          (True, db\<lparr>rpc_t := rpc_t db @ [(name, SText level, SNull, gid)]\<rparr>)
      | (kInsertRpcWithParameter, [SText name, SText level, SText param, SInt gid]) \<Rightarrow>
          (True, db\<lparr>rpc_t := rpc_t db @ [(name, SText level, SText param, gid)]\<rparr>)
      | (kInsertApplication, [SText a, prio, revoked, SInt mem, SInt hb, cert]) \<Rightarrow>
          (True,
           if a \<in> set (map col_id (application_t db)) then db
           else db\<lparr>application_t := application_t db @
                  [(new_application_row a)
                     \<lparr> col_priority_value := prio, col_is_revoked := revoked, col_memory_kb := mem,
                       col_heart_beat_timeout_ms := hb, col_certificate := cert \<rparr>]\<rparr>)
      | (kInsertApplicationFull, [SText a, kc, sf, dh, prio, revoked, dflt, predata, SInt mem, SInt hb, cert]) \<Rightarrow>
          (True,
           db\<lparr>application_t := filter (\<lambda>r. col_id r \<noteq> a) (application_t db) @
                [\<lparr> col_id = a, col_keep_context = kc, col_steal_focus = sf, col_default_hmi = dh,
                    col_priority_value = prio, col_is_revoked = revoked, col_is_default = dflt,
                    col_is_predata = predata, col_memory_kb = mem, col_heart_beat_timeout_ms = hb,
                    col_certificate = cert \<rparr>]\<rparr>)
      | (kInsertAppGroup, [SText a, SText name]) \<Rightarrow>
          (True,
           case filter (\<lambda>g. fst (snd g) = name) (functional_group_t db) of
             [] \<Rightarrow> db
           | g # _ \<Rightarrow> db\<lparr>app_group_t := app_group_t db @ [(a, fst g)]\<rparr>)
      | (kInsertNickname, [SText a, SText n]) \<Rightarrow>
          (True, db\<lparr>nickname_t := insert_or_ignore (a, n) (nickname_t db)\<rparr>)
      | (kInsertAppType, [SText a, SText t]) \<Rightarrow>
          (True, db\<lparr>app_type_t := insert_or_ignore (a, t) (app_type_t db)\<rparr>)
      | (kInsertRequestType, [SText a, SText t]) \<Rightarrow>
          (True, db\<lparr>request_type_t := request_type_t db @ [(a, t)]\<rparr>)
      | (kInsertEndpoint, [SText s, SText u, SText a]) \<Rightarrow>
          (True, db\<lparr>endpoint_t := endpoint_t db @ [(s, u, a)]\<rparr>)
      | (kInsertMessageType, [SText t]) \<Rightarrow>
          (True, db\<lparr>message_type_t := insert_or_ignore t (message_type_t db)\<rparr>)
      | (kInsertLanguage, [SText c]) \<Rightarrow>
          (True, db\<lparr>language_t := insert_or_ignore c (language_t db)\<rparr>)
      | (kInsertSecondsBetweenRetry, [SInt i, SInt v]) \<Rightarrow>
          (True, db\<lparr>seconds_between_retry_t := seconds_between_retry_t db @ [(i, v)]\<rparr>)
      | (kInsertNotificationsByPriority, [SText k, SInt v]) \<Rightarrow>
          (True, db\<lparr>notifications_by_priority_t :=
                   filter (\<lambda>r. fst r \<noteq> k) (notifications_by_priority_t db) @ [(k, v)]\<rparr>)
      | (kInsertDeviceData, [SText d]) \<Rightarrow>
          (True, db\<lparr>device_t := insert_or_ignore d (device_t db)\<rparr>)
      | (kInsertAppLevel, [SText a]) \<Rightarrow>
          (True, db\<lparr>app_level_t := app_level_t db @ [a]\<rparr>)
      | _ \<Rightarrow> (False, db))"

definition sqlite_update :: "update_sql \<Rightarrow> sqlval list \<Rightarrow> database \<Rightarrow> bool \<times> database" where
  "sqlite_update q binds db =
     (case (q, binds) of
        (kSetNotFirstRun, []) \<Rightarrow> (True, db\<lparr>is_first_run := False\<rparr>)
      | (kInsertInitData, []) \<Rightarrow> (True, seed db)
      | (kDeleteRpc, []) \<Rightarrow> (True, db\<lparr>rpc_t := []\<rparr>)
      | (kDeleteFunctionalGroup, []) \<Rightarrow> (True, db\<lparr>functional_group_t := []\<rparr>)
      | (kDeleteAppGroup, []) \<Rightarrow> (True, db\<lparr>app_group_t := []\<rparr>)
      | (kDeleteApplication, []) \<Rightarrow> (True, db\<lparr>application_t := []\<rparr>)
      | (kDeleteRequestType, []) \<Rightarrow> (True, db\<lparr>request_type_t := []\<rparr>)
      | (kDeleteEndpoint, []) \<Rightarrow> (True, db\<lparr>endpoint_t := []\<rparr>)
      | (kDeleteMessageString, []) \<Rightarrow> (True, db\<lparr>message_t := []\<rparr>)
      | (kDeleteSecondsBetweenRetries, []) \<Rightarrow> (True, db\<lparr>seconds_between_retry_t := []\<rparr>)
      | (kDeleteAppLevel, []) \<Rightarrow> (True, db\<lparr>app_level_t := []\<rparr>)
      | (kDeleteAppGroupByApplicationId, [SText a]) \<Rightarrow>
          (True, db\<lparr>app_group_t := filter (\<lambda>r. fst r \<noteq> a) (app_group_t db)\<rparr>)
      | (kSaveModuleMeta, [odometer, days, cycles]) \<Rightarrow>
          (True, db\<lparr>module_meta_t := map (\<lambda>r. [odometer, days, cycles]) (module_meta_t db)\<rparr>)
      | (kUpdateModuleConfig, [c0, c1, c2, c3, c4, c5, c6, c7, c8, c9]) \<Rightarrow>
          (True, db\<lparr>module_config_t :=
                   map (\<lambda>r. [c0, c1, c2, c3, c4, c5, c6, c7, c8, c9]) (module_config_t db)\<rparr>)
      | (kUpdatePreloaded, [b]) \<Rightarrow>
          (True, db\<lparr>module_config_t := map (\<lambda>r. b # tl r) (module_config_t db)\<rparr>)
      | (kUpdateVersion, [SText v]) \<Rightarrow> (True, db\<lparr>version_t := map (\<lambda>r. v) (version_t db)\<rparr>)
      | (kUpdateApplicationCustomData, [revoked, dflt, predata, SText a]) \<Rightarrow>
          (True, db\<lparr>application_t :=
                   map (\<lambda>r. if col_id r = a
                            then r\<lparr>col_is_revoked := revoked, col_is_default := dflt,
                                   col_is_predata := predata\<rparr>
                            else r)
                     (application_t db)\<rparr>)
      | (kUpdateIsDefault, [b, SText a]) \<Rightarrow>
          (True, db\<lparr>application_t :=
                   map (\<lambda>r. if col_id r = a then r\<lparr>col_is_default := b\<rparr> else r) (application_t db)\<rparr>)
      | _ \<Rightarrow> sqlite_insert q binds db)"

definition sqlite_exec :: "update_sql \<Rightarrow> sqlval list \<Rightarrow> database \<Rightarrow> bool \<times> database" where
  "sqlite_exec q binds db =
     (if q = kCreateSchema then (True, db\<lparr>has_schema := True\<rparr>)
      else if \<not> has_schema db then (False, db)
      else if q = kDropSchema then (True, empty_database\<lparr>is_first_run := is_first_run db\<rparr>)
      else sqlite_update q binds db)"

definition sqlite :: "database driver" where
  "sqlite =
     \<lparr> PrepareSelect = (\<lambda>q db. has_schema db),
       Rows = (\<lambda>q binds db. if has_schema db then sqlite_rows q binds db else []),
       SelectOk = (\<lambda>q binds db. has_schema db),
       PrepareUpdate = (\<lambda>q db. has_schema db),
       Exec = sqlite_exec \<rparr>"




section \<open>Notions for the round trip\<close>

subsection \<open>Maps in key order\<close>

text \<open>
  A \<^verbatim>\<open>std::map\<close> iterates in key order: the list of a map is strictly sorted by its
  keys. \<open>build\<close> is the map that assigning the pairs one after the other yields.
\<close>

definition sorted_keys :: "'v cmap \<Rightarrow> bool" where
  "sorted_keys m = sorted_wrt (<) (map fst m)"



subsection \<open>The rows a save writes\<close>






subsection \<open>The rows a load reads\<close>




subsection \<open>Tokens\<close>





definition group_id :: "(string \<Rightarrow> int32) \<Rightarrow> string \<times> 'a \<Rightarrow> int" where
  "group_id GenerateHash it = sint (abs_int (GenerateHash (fst it)))"









subsection \<open>The applications\<close>

text \<open>
  A boolean cell as \<^verbatim>\<open>GetBoolean\<close> reads it, the row \<open>kSelectAppPolicies\<close> delivers for a
  stored application, the value a load gives the application, whether the load gets
  past the application, and what a round of the loop does to the section.
\<close>

definition is_flag :: "sqlval \<Rightarrow> bool" where
  "is_flag v = GetBoolean [v] 0"







text \<open>
  What saving an application that carries no predefined string writes: its row, the
  references to its groups, and its names, types and request types. \<open>save_list\<close> is the
  order in which \<open>SaveApplicationPoliciesSection\<close> saves; the device policy is saved like
  an application without lists.
\<close>

definition group_ref :: "(int \<times> string \<times> sqlval) list \<Rightarrow> string \<Rightarrow> string \<Rightarrow> (string \<times> int) list" where
  "group_ref fg a g = (case filter (\<lambda>r. fst (snd r) = g) fg of [] \<Rightarrow> [] | r # _ \<Rightarrow> [(a, fst r)])"

definition app_row ::
  "('pri, 'hmi, 'par, 'aht, 'rqt) enums \<Rightarrow> string \<times> ('pri, 'aht, 'rqt) AppPolicy \<Rightarrow> application_row" where
  "app_row en app =
     (new_application_row (fst app))
       \<lparr> col_priority_value :=
           SText (EnumToJsonString_field (Priority_enum en) (priority (val (base (snd app))))),
         col_is_revoked := BindBool (is_null (base (snd app))),
         col_memory_kb := sint (deref_int (memory_kb (val (base (snd app))))),
         col_heart_beat_timeout_ms := uint (deref_int (heart_beat_timeout_ms (val (base (snd app))))),
         col_certificate := BindString (certificate (val (base (snd app)))) \<rparr>"

definition saved_app ::
  "('pri, 'hmi, 'par, 'aht, 'rqt) enums \<Rightarrow> string \<times> ('pri, 'aht, 'rqt) AppPolicy \<Rightarrow> database
     \<Rightarrow> database" where
  "saved_app en app d =
     d\<lparr> application_t :=
          (if fst app \<in> set (map col_id (application_t d)) then application_t d
           else application_t d @ [app_row en app]),
        app_group_t := app_group_t d @
          concat (map (group_ref (functional_group_t d) (fst app)) (groups (val (base (snd app))))),
        nickname_t := foldl (\<lambda>t n. insert_or_ignore (fst app, n) t) (nickname_t d)
          (deref_list (nicknames (val (base (snd app))))),
        app_type_t := foldl (\<lambda>t x. insert_or_ignore (fst app, EnumToJsonString (AppHMIType_enum en) x) t)
          (app_type_t d) (deref_list (AppHMIType (val (base (snd app))))),
        request_type_t := request_type_t d @
          map (\<lambda>t. (fst app, EnumToJsonString (RequestType_enum en) t))
            (deref_list (RequestType (val (base (snd app))))) \<rparr>"








subsection \<open>The stores of the round trip\<close>





section \<open>Concrete runs\<close>

text \<open>Scripts for the driver, used to run the functions on explicit inputs.\<close>

definition all_ok :: "update_sql \<Rightarrow> bool" where
  "all_ok q = True"

definition one_parameter_row :: "select_sql \<Rightarrow> sqlval list \<Rightarrow> row list option" where
  "one_parameter_row q binds = (if q = kSelectRpc then Some [[SText ''mainField1'']] else None)"

definition no_result :: CheckPermissionResult where
  "no_result = \<lparr> hmi_level_permitted = kRpcUserDisallowed, list_of_allowed_params = [] \<rparr>"

text \<open>The parameters the rows after the first one carry.\<close>

definition params_after_first_row :: "row list \<Rightarrow> string list" where
  "params_after_first_row rows = map (\<lambda>r. GetString r 0) (filter (\<lambda>r. \<not> IsNull r 0) (tl rows))"

text \<open>The parameters all rows carry.\<close>

definition params_of_rows :: "row list \<Rightarrow> string list" where
  "params_of_rows rows = map (\<lambda>r. GetString r 0) (filter (\<lambda>r. \<not> IsNull r 0) rows)"

definition odometer_row :: "select_sql \<Rightarrow> sqlval list \<Rightarrow> row list option" where
  "odometer_row q binds =
     (if q = kSelectKilometers then Some [[SInt 100, SInt 40]]
      else if q = kSelectDays then Some [[SInt 30, SInt 0]]
      else None)"




text \<open>
  Enumerations for concrete runs: the values of a domain are its known tokens themselves.
\<close>

definition token_codec :: "string list \<Rightarrow> string codec" where
  "token_codec known =
     \<lparr> EnumFromJsonString = (\<lambda>s. if s \<in> set known then Some s else None),
       EnumToJsonString = (\<lambda>e. e) \<rparr>"

definition demo_enums :: "(string, string, string, string, string) enums" where
  "demo_enums =
     \<lparr> Priority_enum = token_codec [''EMERGENCY'', ''NORMAL'', ''NONE''],
       HmiLevel_enum = token_codec [''FULL'', ''LIMITED'', ''BACKGROUND'', ''NONE''],
       Parameter_enum = token_codec [''gps'', ''speed''],
       AppHMIType_enum = token_codec [''MEDIA'', ''NAVIGATION''],
       RequestType_enum = token_codec [''HTTP'', ''PROPRIETARY''] \<rparr>"

text \<open>A stand-in for the hash, with negative values.\<close>

definition demo_hash :: "string \<Rightarrow> int32" where
  "demo_hash s = - word_of_nat (length s)"

text \<open>
  Two stored applications, neither revoked nor default. The first has the application
  types \<^verbatim>\<open>MEDIA\<close> and \<^verbatim>\<open>FUTURE_TYPE\<close>, the second only \<^verbatim>\<open>MEDIA\<close>. There is one group,
  with an rpc row of the level \<^verbatim>\<open>FUTURE_LEVEL\<close> and one of the level \<^verbatim>\<open>FULL\<close>.
\<close>

definition apps_with_future_type :: "select_sql \<Rightarrow> sqlval list \<Rightarrow> row list option" where
  "apps_with_future_type q binds =
     (if q = kSelectAppPolicies
      then Some [[SText ''app1'', SText ''NORMAL'', SInt 0, SInt 0, SNull],
                 [SText ''app2'', SText ''NORMAL'', SInt 0, SInt 0, SNull]]
      else if q = kSelectAppTypes
      then Some (if binds = [SText ''app1''] then [[SText ''MEDIA''], [SText ''FUTURE_TYPE'']]
                 else [[SText ''MEDIA'']])
      else if q = kSelectAppGroups \<or> q = kSelectNicknames \<or> q = kSelectRequestTypes then Some []
      else if q = kSelectApplicationRevoked \<or> q = kSelectApplicationIsDefault then Some [[SInt 0]]
      else if q = kSelectFunctionalGroups then Some [[SInt 4, SText ''Base'', SNull]]
      else if q = kSelectAllRpcs
      then Some [[SText ''Show'', SText ''FUTURE_LEVEL'', SNull],
                 [SText ''Show'', SText ''FULL'', SText ''gps'']]
      else None)"

definition app1_row :: row where
  "app1_row = [SText ''app1'', SText ''NORMAL'', SInt 0, SInt 0, SNull]"

definition app2_row :: row where
  "app2_row = [SText ''app2'', SText ''NORMAL'', SInt 0, SInt 0, SNull]"

definition future_level_row :: row where
  "future_level_row = [SText ''Show'', SText ''FUTURE_LEVEL'', SNull]"

definition full_gps_row :: row where
  "full_gps_row = [SText ''Show'', SText ''FULL'', SText ''gps'']"

definition no_apps :: "(string, string, string) ApplicationPoliciesSection" where
  "no_apps = \<lparr> apps = [], device = \<lparr> device_priority = None \<rparr> \<rparr>"

text \<open>A document whose consumer friendly messages carry a version and no messages.\<close>

definition version_only :: ConsumerFriendlyMessages where
  "version_only = \<lparr> version = Some ''7'', messages = None \<rparr>"

definition small_table :: "(string, string, string, string, string) Table" where
  "small_table = new_Table
     \<lparr> functional_groupings :=
         [(''Base'', \<lparr> user_consent_prompt = None,
                      rpcs = \<lparr> is_null = False,
                               val = [(''Show'', \<lparr> hmi_levels = [''FULL''], parameters = None \<rparr>)] \<rparr> \<rparr>)],
       consumer_friendly_messages := version_only \<rparr>"


definition fails_at :: "update_sql \<Rightarrow> update_sql \<Rightarrow> bool" where
  "fails_at bad q = (q \<noteq> bad)"

definition no_select :: "select_sql \<Rightarrow> sqlval list \<Rightarrow> row list option" where
  "no_select q binds = None"

definition fresh_handle :: "log SQLDatabase" where
  "fresh_handle = \<lparr> store = [], began_at = None \<rparr>"







text \<open>The predefined string and the request types of the applications of a document.\<close>

definition request_types ::
  "(string, string, string, string, string) Table \<Rightarrow> (string \<times> string \<times> string list option) list" where
  "request_types table =
     map (\<lambda>x. (fst x, predefined_string (snd x), RequestType (val (base (snd x)))))
       (apps (app_policies_section table))"

section \<open>Properties of the decision engine\<close>

lemma sint_sub_in_range:
  fixes a b :: int32
  assumes "0 \<le> sint b" and "sint b \<le> sint a"
  shows "sint (a - b) = sint a - sint b"
proof -
  have "sint a < 2 ^ 31" using sint_lt [of a] by simp
  moreover have "- (2 ^ 31) \<le> sint a" using sint_ge [of a] by simp
  ultimately have "signed_take_bit 31 (sint a - sint b) = sint a - sint b"
    using assms by (intro signed_take_bit_int_eq_self) auto
  then show ?thesis by (simp add: sint_word_ariths)
qed

lemma clamp_on_words:
  fixes limit lst current :: int32
  shows "sint (if sint limit < 0 \<or> sint lst < 0 \<or> sint current < 0 \<or> sint current < sint lst \<or>
                  sint limit < sint (current - lst)
               then 0
               else limit - (current - lst))
         = cadence_remaining (sint limit) (sint lst) (sint current)"
proof (cases "sint limit < 0 \<or> sint lst < 0 \<or> sint current < 0 \<or> sint current < sint lst")
  case True
  then show ?thesis by (auto simp: cadence_remaining_def)
next
  case ordered: False
  then have d: "sint (current - lst) = sint current - sint lst"
    by (intro sint_sub_in_range) auto
  show ?thesis
  proof (cases "sint limit < sint current - sint lst")
    case True
    with ordered d show ?thesis by (auto simp: cadence_remaining_def)
  next
    case False
    with ordered d have "sint (limit - (current - lst)) = sint limit - sint (current - lst)"
      by (intro sint_sub_in_range) auto
    with ordered False d show ?thesis by (auto simp: cadence_remaining_def)
  qed
qed

text \<open>
  Claim C4. When the select succeeds, \<open>KilometersBeforeExchange\<close> returns, as a signed
  number, \<open>limit - (current - last)\<close>, and 0 instead when one of limit, last and current
  is negative, when \<open>current < last\<close> or when \<open>limit < current - last\<close>: no subtraction
  overflows. \<open>DaysBeforeExchange\<close> returns the same, except that it returns the limit
  when last is 0.
\<close>

theorem cadence_clamp:
  assumes km: "PrepareSelect drv kSelectKilometers db \<and> SelectOk drv kSelectKilometers [] db"
    and days: "PrepareSelect drv kSelectDays db \<and> SelectOk drv kSelectDays [] db"
  shows "sint (KilometersBeforeExchange drv db current) =
           cadence_remaining
             (sint (GetInteger (current_row (Rows drv kSelectKilometers [] db)) 0))
             (sint (GetInteger (current_row (Rows drv kSelectKilometers [] db)) 1))
             (sint current)
         \<and> sint (DaysBeforeExchange drv db current) =
           (if GetInteger (current_row (Rows drv kSelectDays [] db)) 1 = 0
            then sint (GetInteger (current_row (Rows drv kSelectDays [] db)) 0)
            else cadence_remaining
                   (sint (GetInteger (current_row (Rows drv kSelectDays [] db)) 0))
                   (sint (GetInteger (current_row (Rows drv kSelectDays [] db)) 1))
                   (sint current))"
proof
  show "sint (KilometersBeforeExchange drv db current) =
           cadence_remaining
             (sint (GetInteger (current_row (Rows drv kSelectKilometers [] db)) 0))
             (sint (GetInteger (current_row (Rows drv kSelectKilometers [] db)) 1))
             (sint current)"
    using km unfolding KilometersBeforeExchange_def Let_def
    by (simp only: simp_thms if_False clamp_on_words)
next
  show "sint (DaysBeforeExchange drv db current) =
           (if GetInteger (current_row (Rows drv kSelectDays [] db)) 1 = 0
            then sint (GetInteger (current_row (Rows drv kSelectDays [] db)) 0)
            else cadence_remaining
                   (sint (GetInteger (current_row (Rows drv kSelectDays [] db)) 0))
                   (sint (GetInteger (current_row (Rows drv kSelectDays [] db)) 1))
                   (sint current))"
  proof (cases "GetInteger (current_row (Rows drv kSelectDays [] db)) 1 = 0")
    case True
    with days show ?thesis by (simp add: DaysBeforeExchange_def Let_def)
  next
    case False
    then have ne: "(0 = GetInteger (current_row (Rows drv kSelectDays [] db)) 1) = False"
      by auto
    show ?thesis
      using days False unfolding DaysBeforeExchange_def Let_def ne
      by (simp only: simp_thms if_False clamp_on_words)
  qed
qed

theorem cadence_clamp_witness:
  "PrepareSelect (scripted odometer_row all_ok) kSelectKilometers []
   \<and> SelectOk (scripted odometer_row all_ok) kSelectKilometers [] []
   \<and> sint (KilometersBeforeExchange (scripted odometer_row all_ok) [] 60) = 80
   \<and> sint (KilometersBeforeExchange (scripted odometer_row all_ok) [] 30) = 0
   \<and> sint (DaysBeforeExchange (scripted odometer_row all_ok) [] 7) = 30"
  using cadence_clamp [of "scripted odometer_row all_ok" "[]" 60]
    cadence_clamp [of "scripted odometer_row all_ok" "[]" 30]
    cadence_clamp [of "scripted odometer_row all_ok" "[]" 7]
  by (simp add: scripted_def odometer_row_def all_ok_def cadence_remaining_def
      current_row_def GetInteger_def col_def)

lemma CheckPermissions_rows_params:
  "list_of_allowed_params (CheckPermissions_rows rs result) =
     list_of_allowed_params result @ params_of_rows rs"
  by (induction rs arbitrary: result) (auto simp: params_of_rows_def)

lemma CheckPermissions_rows_level:
  "hmi_level_permitted (CheckPermissions_rows rs result) = hmi_level_permitted result"
  by (induction rs arbitrary: result) auto

text \<open>
  Claim C3, as the specification states it, fails: with a single matching row that
  carries the parameter \<^verbatim>\<open>mainField1\<close> the list of allowed parameters is
  \<^verbatim>\<open>[mainField1]\<close>, while the rows after the first carry nothing.
\<close>

theorem CheckPermissions_first_row_counterexample:
  "list_of_allowed_params
     (CheckPermissions (scripted one_parameter_row all_ok) [] ''app1'' ''FULL'' ''Show'' no_result)
     = [''mainField1'']
   \<and> params_after_first_row
       (Rows (scripted one_parameter_row all_ok) kSelectRpc
          [SText ''app1'', SText ''FULL'', SText ''Show''] []) = []"
  by (simp add: CheckPermissions_def scripted_def one_parameter_row_def no_result_def
      params_after_first_row_def IsNull_def GetString_def col_def)

text \<open>
  Claim C3, amended. When the statement does not prepare, the result is left as it was.
  Otherwise the level is \<open>kRpcAllowed\<close> exactly when the select delivers a row and
  \<open>kRpcDisallowed\<close> when it delivers none, and the non-null parameters of all rows, the
  first one included, are appended to the list in the order of the rows, duplicates kept.
\<close>

theorem CheckPermissions_result:
  "CheckPermissions drv db app_id hmi_level rpc result =
     (if \<not> PrepareSelect drv kSelectRpc db then result
      else result
        \<lparr> hmi_level_permitted :=
            (if Rows drv kSelectRpc [SText app_id, SText hmi_level, SText rpc] db = []
             then kRpcDisallowed else kRpcAllowed),
          list_of_allowed_params :=
            list_of_allowed_params result @
            params_of_rows (Rows drv kSelectRpc [SText app_id, SText hmi_level, SText rpc] db) \<rparr>)"
proof (cases "PrepareSelect drv kSelectRpc db")
  case False
  then show ?thesis by (simp add: CheckPermissions_def)
next
  case True
  define rows where "rows = Rows drv kSelectRpc [SText app_id, SText hmi_level, SText rpc] db"
  define r1 where
    "r1 = result\<lparr>hmi_level_permitted := (if rows \<noteq> [] then kRpcAllowed else kRpcDisallowed)\<rparr>"
  have "CheckPermissions drv db app_id hmi_level rpc result = CheckPermissions_rows rows r1"
    using True by (simp add: CheckPermissions_def rows_def r1_def Let_def)
  moreover have "list_of_allowed_params (CheckPermissions_rows rows r1) =
      list_of_allowed_params result @ params_of_rows rows"
    by (simp add: CheckPermissions_rows_params r1_def)
  moreover have "hmi_level_permitted (CheckPermissions_rows rows r1) =
      (if rows = [] then kRpcDisallowed else kRpcAllowed)"
    by (simp add: CheckPermissions_rows_level r1_def)
  ultimately show ?thesis
    using True by (simp add: rows_def)
qed

theorem CheckPermissions_result_witness:
  "CheckPermissions (scripted one_parameter_row all_ok) [] ''app1'' ''FULL'' ''Show'' no_result
     = \<lparr> hmi_level_permitted = kRpcAllowed, list_of_allowed_params = [''mainField1''] \<rparr>"
  using CheckPermissions_result
    [of "scripted one_parameter_row all_ok" "[]" "''app1''" "''FULL''" "''Show''" no_result]
  by (simp add: scripted_def one_parameter_row_def no_result_def params_of_rows_def
      IsNull_def GetString_def col_def)

lemma GetUserFriendlyMsg_loop_map:
  "GetUserFriendlyMsg_loop cs acc = acc @ map (\<lambda>c. \<lparr> message_code = c \<rparr>) cs"
  by (induction cs arbitrary: acc) auto

text \<open>
  Claim C10. \<open>GetUserFriendlyMsg\<close> returns one message for each requested code, in the
  order of the codes, with the code as its only content; neither the store nor the
  language has a part in the result.
\<close>

theorem GetUserFriendlyMsg_codes:
  "GetUserFriendlyMsg drv db msg_codes language = map (\<lambda>c. \<lparr> message_code = c \<rparr>) msg_codes
   \<and> length (GetUserFriendlyMsg drv db msg_codes language) = length msg_codes
   \<and> map message_code (GetUserFriendlyMsg drv db msg_codes language) = msg_codes
   \<and> GetUserFriendlyMsg drv db msg_codes language = GetUserFriendlyMsg drv' db' msg_codes language'"
  by (simp add: GetUserFriendlyMsg_def GetUserFriendlyMsg_loop_map comp_def)

section \<open>Properties of the lifecycle controller\<close>




section \<open>Properties of the persistence engine\<close>

text \<open>
  Claim C7. When the \<open>messages\<close> container of the document is not initialised,
  \<open>SaveConsumerFriendlyMessages\<close> returns true and leaves the store as it was, whatever
  the driver: it executes no statement at all, so nothing is deleted, the version is not
  updated and nothing is inserted.
\<close>

theorem SaveConsumerFriendlyMessages_unset:
  assumes "messages msgs = None"
  shows "SaveConsumerFriendlyMessages drv msgs db = (True, db)"
  using assms by (simp add: SaveConsumerFriendlyMessages_def)

theorem SaveConsumerFriendlyMessages_unset_witness:
  "messages version_only = None
   \<and> SaveConsumerFriendlyMessages (scripted no_select all_ok) version_only [] = (True, [])"
  using SaveConsumerFriendlyMessages_unset [of version_only "scripted no_select all_ok" "[]"]
  by (simp add: version_only_def)

text \<open>
  Claim C2. \<open>Save\<close> begins a transaction, runs the seven sub-saves in the fixed order,
  each on the store its predecessor left, and stops at the first that fails. When one
  fails the transaction is rolled back: \<open>Save\<close> returns false and the store is the one
  from before the call, whatever the failed run had written. When all succeed the
  transaction is committed: \<open>Save\<close> returns true and the store is the one the last
  sub-save left. In both cases no transaction is open afterwards.
\<close>

theorem Save_transaction:
  "Save drv en GenerateHash table h =
     (case Save_contract drv en GenerateHash table (store h) of
        (ok, db1) \<Rightarrow> (ok, \<lparr> store = db1, began_at = None \<rparr>))"
proof -
  obtain ok1 d1 where r1: "SaveFunctionalGroupings drv en GenerateHash (functional_groupings table) (store h) = (ok1, d1)"
    by (cases "SaveFunctionalGroupings drv en GenerateHash (functional_groupings table) (store h)")
  obtain ok2 d2 where r2: "SaveApplicationPoliciesSection drv en (app_policies_section table) d1 = (ok2, d2)"
    by (cases "SaveApplicationPoliciesSection drv en (app_policies_section table) d1")
  obtain ok3 d3 where r3: "SaveModuleConfig drv (module_config table) d2 = (ok3, d3)"
    by (cases "SaveModuleConfig drv (module_config table) d2")
  obtain ok4 d4 where r4: "SaveConsumerFriendlyMessages drv (consumer_friendly_messages table) d3 = (ok4, d4)"
    by (cases "SaveConsumerFriendlyMessages drv (consumer_friendly_messages table) d3")
  obtain ok5 d5 where r5: "SaveDeviceData drv (deref_list (device_data table)) d4 = (ok5, d5)"
    by (cases "SaveDeviceData drv (deref_list (device_data table)) d4")
  obtain ok6 d6 where r6: "SaveUsageAndErrorCounts drv (usage_and_error_counts table) d5 = (ok6, d6)"
    by (cases "SaveUsageAndErrorCounts drv (usage_and_error_counts table) d5")
  obtain ok7 d7 where r7: "SaveModuleMeta drv (module_meta table) d6 = (ok7, d7)"
    by (cases "SaveModuleMeta drv (module_meta table) d6")
  show ?thesis
    unfolding Save_def Save_contract_def sub_saves_def Let_def
    using r1 r2 r3 r4 r5 r6 r7
    by (cases ok1; cases ok2; cases ok3; cases ok4; cases ok5; cases ok6; cases ok7)
       (simp_all add: on_store_def BeginTransaction_def RollbackTransaction_def
          CommitTransaction_def)
qed

theorem Save_transaction_witness:
  "Save (scripted no_select (fails_at kUpdateModuleConfig)) demo_enums demo_hash small_table
      fresh_handle = (False, fresh_handle)
   \<and> SaveFunctionalGroupings (scripted no_select (fails_at kUpdateModuleConfig)) demo_enums demo_hash
        (functional_groupings small_table) (store fresh_handle)
      = (True, [(kDeleteRpc, []), (kDeleteFunctionalGroup, []),
                (kInsertFunctionalGroup, [SInt 4, SText ''Base'', SNull]),
                (kInsertRpc, [SText ''Show'', SText ''FULL'', SInt 4])])
   \<and> fst (Save (scripted no_select all_ok) demo_enums demo_hash small_table fresh_handle)
   \<and> map fst (store (snd (Save (scripted no_select all_ok) demo_enums demo_hash small_table fresh_handle)))
      = [kDeleteRpc, kDeleteFunctionalGroup, kInsertFunctionalGroup, kInsertRpc,
         kDeleteAppGroup, kDeleteApplication, kDeleteRequestType, kInsertApplication,
         kUpdateModuleConfig, kDeleteSecondsBetweenRetries, kDeleteEndpoint,
         kDeleteAppLevel, kSaveModuleMeta]"
proof -
  have failing: "Save_contract (scripted no_select (fails_at kUpdateModuleConfig)) demo_enums demo_hash
      small_table [] = (False, [])"
    by code_simp
  have passing: "fst (Save_contract (scripted no_select all_ok) demo_enums demo_hash small_table [])
     \<and> map fst (snd (Save_contract (scripted no_select all_ok) demo_enums demo_hash small_table []))
      = [kDeleteRpc, kDeleteFunctionalGroup, kInsertFunctionalGroup, kInsertRpc,
         kDeleteAppGroup, kDeleteApplication, kDeleteRequestType, kInsertApplication,
         kUpdateModuleConfig, kDeleteSecondsBetweenRetries, kDeleteEndpoint,
         kDeleteAppLevel, kSaveModuleMeta]"
    by code_simp
  have groups: "SaveFunctionalGroupings (scripted no_select (fails_at kUpdateModuleConfig)) demo_enums demo_hash
        (functional_groupings small_table) []
      = (True, [(kDeleteRpc, []), (kDeleteFunctionalGroup, []),
                (kInsertFunctionalGroup, [SInt 4, SText ''Base'', SNull]),
                (kInsertRpc, [SText ''Show'', SText ''FULL'', SInt 4])])"
    by code_simp
  show ?thesis
    using Save_transaction [of "scripted no_select (fails_at kUpdateModuleConfig)" demo_enums demo_hash
        small_table fresh_handle]
      Save_transaction [of "scripted no_select all_ok" demo_enums demo_hash small_table fresh_handle]
      failing passing groups
    by (simp add: fresh_handle_def split: prod.splits)
qed

section \<open>Properties of the relational store\<close>

lemma then_do_True [simp]: "then_do (True, db) f = f db"
  by (simp add: then_do_def)

lemma then_do_False [simp]: "then_do (False, db) f = (False, db)"
  by (simp add: then_do_def)



lemma Exec_sqlite [simp]: "Exec sqlite = sqlite_exec"
  and PrepareUpdate_sqlite [simp]: "PrepareUpdate sqlite q db = has_schema db"
  and PrepareSelect_sqlite [simp]: "PrepareSelect sqlite s db = has_schema db"
  and SelectOk_sqlite [simp]: "SelectOk sqlite s binds db = has_schema db"
  and Rows_sqlite [simp]: "Rows sqlite s binds db = (if has_schema db then sqlite_rows s binds db else [])"
  by (simp_all add: sqlite_def)
















lemma abs_int_is_abs:
  assumes "sint w \<noteq> - (2 ^ 31)"
  shows "sint (abs_int w) = \<bar>sint w\<bar>"
proof (cases "sint w < 0")
  case False
  then show ?thesis by (simp add: abs_int_def)
next
  case True
  have "- (2 ^ 31) \<le> sint w" using sint_ge [of w] by simp
  with assms True have "signed_take_bit 31 (- sint w) = - sint w"
    by (intro signed_take_bit_int_eq_self) auto
  with True show ?thesis by (simp add: abs_int_def sint_word_ariths)
qed



section \<open>Properties of loading\<close>




lemma GatherAppType_rows_unknown:
  "unknown_token c rows \<Longrightarrow> fst (GatherAppType_rows c rows acc) = False"
  by (induction rows arbitrary: acc) (auto simp: unknown_token_def split: option.splits)

lemma GatherFunctionalGroupings_rpc_skip:
  assumes "IsNull r 1 \<or> EnumFromJsonString (HmiLevel_enum en) (GetString r 1) = None"
    and "IsNull r 2 \<or> EnumFromJsonString (Parameter_enum en) (GetString r 2) = None"
  shows "GatherFunctionalGroupings_rpc en t r = t"
  using assms by (auto simp: GatherFunctionalGroupings_rpc_def Let_def)

text \<open>
  Claim C5, as the specification states it, fails for the application types: the first
  stored application has the valid type \<^verbatim>\<open>MEDIA\<close> and the unknown type \<^verbatim>\<open>FUTURE_TYPE\<close>, and
  the load of the application policies returns false with neither this application nor
  the sound one after it in the document.
\<close>

theorem unknown_app_type_counterexample:
  "GatherApplicationPoliciesSection (scripted apps_with_future_type all_ok) demo_enums [] no_apps
     = (False, no_apps)
   \<and> apps (app_policies_section (GenerateSnapshot (scripted apps_with_future_type all_ok) demo_enums []))
     = []"
  by code_simp

text \<open>
  Claim C5, amended. In \<open>GatherFunctionalGroupings\<close> an rpc row whose level and parameter
  are NULL or do not convert changes nothing, the other rows count as they would
  without it, and the function succeeds whenever its two statements prepare. In
  \<open>GatherAppType\<close> and \<open>GatherRequestType\<close> a token that does not convert makes the helper
  return false, and \<open>GatherApplicationPoliciesSection\<close> then returns false at that
  application (when it is not revoked and not the device): the application is not
  loaded, apart from the string \<^verbatim>\<open>default\<close> when it has the default policy, and the
  applications after it are not read.
\<close>

theorem unknown_token_handling:
  assumes groups_prepare:
      "PrepareSelect drv kSelectFunctionalGroups db \<and> PrepareSelect drv kSelectAllRpcs db"
    and level: "IsNull r 1 \<or> EnumFromJsonString (HmiLevel_enum en) (GetString r 1) = None"
    and param: "IsNull r 2 \<or> EnumFromJsonString (Parameter_enum en) (GetString r 2) = None"
    and app: "\<not> IsApplicationRevoked drv db (GetString a 0) \<and> GetString a 0 \<noteq> kDeviceId"
    and type: "unknown_token (AppHMIType_enum en) (Rows drv kSelectAppTypes [SText (GetString a 0)] db)
       \<or> unknown_token (RequestType_enum en) (Rows drv kSelectRequestTypes [SText (GetString a 0)] db)"
  shows "fst (GatherFunctionalGroupings drv en db grps)
     \<and> foldl (GatherFunctionalGroupings_rpc en) t (before @ r # after)
         = foldl (GatherFunctionalGroupings_rpc en) t (before @ after)
     \<and> GatherApplicationPoliciesSection_rows drv en db (a # rest) p =
         (False, if IsDefaultPolicy drv db (GetString a 0)
                 then p\<lparr>apps := set_to_string (GetString a 0) kDefaultId (apps p)\<rparr> else p)"
proof (intro conjI)
  show "fst (GatherFunctionalGroupings drv en db grps)"
    using groups_prepare by (simp add: GatherFunctionalGroupings_def)
  show "foldl (GatherFunctionalGroupings_rpc en) t (before @ r # after)
         = foldl (GatherFunctionalGroupings_rpc en) t (before @ after)"
    by (simp add: GatherFunctionalGroupings_rpc_skip [OF level param])
  have types: "fst (GatherAppType drv en db (GetString a 0) x) = False
      \<or> fst (GatherRequestType drv en db (GetString a 0) y) = False" for x y
    using type
    by (auto simp: GatherAppType_def GatherRequestType_def GatherAppType_rows_unknown)
  obtain b1 gs where g: "GatherAppGroup drv db (GetString a 0) [] = (b1, gs)"
    by (cases "GatherAppGroup drv db (GetString a 0) []")
  obtain b2 ns where n: "GatherNickName drv db (GetString a 0) None = (b2, ns)"
    by (cases "GatherNickName drv db (GetString a 0) None")
  obtain b3 ts where t: "GatherAppType drv en db (GetString a 0) None = (b3, ts)"
    by (cases "GatherAppType drv en db (GetString a 0) None")
  obtain b4 rs where q: "GatherRequestType drv en db (GetString a 0) None = (b4, rs)"
    by (cases "GatherRequestType drv en db (GetString a 0) None")
  from types [of None None] t q have bad: "\<not> b3 \<or> \<not> b4" by simp
  have row: "GatherApplicationPoliciesSection_row drv en db p a =
         (False, if IsDefaultPolicy drv db (GetString a 0)
                 then p\<lparr>apps := set_to_string (GetString a 0) kDefaultId (apps p)\<rparr> else p)"
    using app bad
    by (cases b1; cases b2; cases b3; cases b4)
       (auto simp: GatherApplicationPoliciesSection_row_def Let_def IsPredataPolicy_def
          new_ApplicationParams_def g n t q)
  show "GatherApplicationPoliciesSection_rows drv en db (a # rest) p =
         (False, if IsDefaultPolicy drv db (GetString a 0)
                 then p\<lparr>apps := set_to_string (GetString a 0) kDefaultId (apps p)\<rparr> else p)"
    by (simp add: row)
qed

theorem unknown_token_handling_witness:
  "PrepareSelect (scripted apps_with_future_type all_ok) kSelectFunctionalGroups []
   \<and> EnumFromJsonString (HmiLevel_enum demo_enums) (GetString future_level_row 1) = None
   \<and> IsNull future_level_row 2
   \<and> unknown_token (AppHMIType_enum demo_enums)
        (Rows (scripted apps_with_future_type all_ok) kSelectAppTypes [SText (GetString app1_row 0)] [])
   \<and> GatherFunctionalGroupings (scripted apps_with_future_type all_ok) demo_enums [] [] =
        (True, [(''Base'', \<lparr> user_consent_prompt = None,
                  rpcs = \<lparr> is_null = False,
                           val = [(''Show'', \<lparr> hmi_levels = [''FULL''], parameters = Some [''gps''] \<rparr>)] \<rparr> \<rparr>)])
   \<and> foldl (GatherFunctionalGroupings_rpc demo_enums) new_Rpcs ([] @ future_level_row # [full_gps_row])
        = foldl (GatherFunctionalGroupings_rpc demo_enums) new_Rpcs ([] @ [full_gps_row])
   \<and> GatherApplicationPoliciesSection_rows (scripted apps_with_future_type all_ok) demo_enums []
        (app1_row # [app2_row]) no_apps = (False, no_apps)"
proof -
  have h1: "PrepareSelect (scripted apps_with_future_type all_ok) kSelectFunctionalGroups []
      \<and> PrepareSelect (scripted apps_with_future_type all_ok) kSelectAllRpcs []"
    by code_simp
  have h2: "IsNull future_level_row 1
      \<or> EnumFromJsonString (HmiLevel_enum demo_enums) (GetString future_level_row 1) = None"
    by code_simp
  have h3: "IsNull future_level_row 2
      \<or> EnumFromJsonString (Parameter_enum demo_enums) (GetString future_level_row 2) = None"
    by code_simp
  have h4: "\<not> IsApplicationRevoked (scripted apps_with_future_type all_ok) [] (GetString app1_row 0)
      \<and> GetString app1_row 0 \<noteq> kDeviceId"
    by code_simp
  have h5: "unknown_token (AppHMIType_enum demo_enums)
        (Rows (scripted apps_with_future_type all_ok) kSelectAppTypes [SText (GetString app1_row 0)] [])
      \<or> unknown_token (RequestType_enum demo_enums)
        (Rows (scripted apps_with_future_type all_ok) kSelectRequestTypes [SText (GetString app1_row 0)] [])"
    by code_simp
  have e1: "EnumFromJsonString (HmiLevel_enum demo_enums) (GetString future_level_row 1) = None"
    by code_simp
  have e2: "IsNull future_level_row 2" by code_simp
  have e3: "unknown_token (AppHMIType_enum demo_enums)
        (Rows (scripted apps_with_future_type all_ok) kSelectAppTypes [SText (GetString app1_row 0)] [])"
    by code_simp
  have e4: "GatherFunctionalGroupings (scripted apps_with_future_type all_ok) demo_enums [] [] =
        (True, [(''Base'', \<lparr> user_consent_prompt = None,
                  rpcs = \<lparr> is_null = False,
                           val = [(''Show'', \<lparr> hmi_levels = [''FULL''], parameters = Some [''gps''] \<rparr>)] \<rparr> \<rparr>)])"
    by code_simp
  have e5: "\<not> IsDefaultPolicy (scripted apps_with_future_type all_ok) [] (GetString app1_row 0)"
    by code_simp
  from unknown_token_handling [OF h1 h2 h3 h4 h5, of "[]" new_Rpcs "[]" "[full_gps_row]" "[app2_row]" no_apps]
    h1 e1 e2 e3 e4 e5
  show ?thesis by simp
qed






section \<open>Properties of the round trip\<close>

subsection \<open>Maps kept in key order\<close>

lemma sorted_keys_Nil [simp]: "sorted_keys []"
  by (simp add: sorted_keys_def)














subsubsection \<open>Appending in key order\<close>








subsection \<open>The writing statements on a store with a schema\<close>


lemma exec_delete [simp]:
  assumes "has_schema db"
  shows "sqlite_exec kDeleteRpc [] db = (True, db\<lparr>rpc_t := []\<rparr>)"
    and "sqlite_exec kDeleteFunctionalGroup [] db = (True, db\<lparr>functional_group_t := []\<rparr>)"
    and "sqlite_exec kDeleteAppGroup [] db = (True, db\<lparr>app_group_t := []\<rparr>)"
    and "sqlite_exec kDeleteApplication [] db = (True, db\<lparr>application_t := []\<rparr>)"
    and "sqlite_exec kDeleteRequestType [] db = (True, db\<lparr>request_type_t := []\<rparr>)"
    and "sqlite_exec kDeleteEndpoint [] db = (True, db\<lparr>endpoint_t := []\<rparr>)"
    and "sqlite_exec kDeleteMessageString [] db = (True, db\<lparr>message_t := []\<rparr>)"
    and "sqlite_exec kDeleteSecondsBetweenRetries [] db = (True, db\<lparr>seconds_between_retry_t := []\<rparr>)"
    and "sqlite_exec kDeleteAppLevel [] db = (True, db\<lparr>app_level_t := []\<rparr>)"
  using assms by (simp_all add: sqlite_exec_def sqlite_update_def)

lemma exec_update [simp]:
  assumes "has_schema db"
  shows "sqlite_exec kSaveModuleMeta [c0, c1, c2] db =
           (True, db\<lparr>module_meta_t := map (\<lambda>r. [c0, c1, c2]) (module_meta_t db)\<rparr>)"
    and "sqlite_exec kUpdateModuleConfig [b0, b1, b2, b3, b4, b5, b6, b7, b8, b9] db =
           (True, db\<lparr>module_config_t :=
              map (\<lambda>r. [b0, b1, b2, b3, b4, b5, b6, b7, b8, b9]) (module_config_t db)\<rparr>)"
  using assms by (simp_all add: sqlite_exec_def sqlite_update_def)

lemma exec_insert_plain [simp]:
  assumes "has_schema db"
  shows "sqlite_exec kInsertRpc [SText n, SText h, SInt g] db =
           (True, db\<lparr>rpc_t := rpc_t db @ [(n, SText h, SNull, g)]\<rparr>)"
    and "sqlite_exec kInsertRpcWithParameter [SText n, SText h, SText p, SInt g] db =
           (True, db\<lparr>rpc_t := rpc_t db @ [(n, SText h, SText p, g)]\<rparr>)"
    and "sqlite_exec kInsertRequestType [SText a, SText t] db =
           (True, db\<lparr>request_type_t := request_type_t db @ [(a, t)]\<rparr>)"
    and "sqlite_exec kInsertEndpoint [SText s, SText u, SText a] db =
           (True, db\<lparr>endpoint_t := endpoint_t db @ [(s, u, a)]\<rparr>)"
    and "sqlite_exec kInsertSecondsBetweenRetry [SInt i, SInt v] db =
           (True, db\<lparr>seconds_between_retry_t := seconds_between_retry_t db @ [(i, v)]\<rparr>)"
    and "sqlite_exec kInsertAppLevel [SText a] db =
           (True, db\<lparr>app_level_t := app_level_t db @ [a]\<rparr>)"
  using assms by (simp_all add: sqlite_exec_def sqlite_update_def sqlite_insert_def)

lemma exec_insert_keyed [simp]:
  assumes "has_schema db"
  shows "sqlite_exec kInsertNickname [SText a, SText n] db =
           (True, db\<lparr>nickname_t := insert_or_ignore (a, n) (nickname_t db)\<rparr>)"
    and "sqlite_exec kInsertAppType [SText a, SText t] db =
           (True, db\<lparr>app_type_t := insert_or_ignore (a, t) (app_type_t db)\<rparr>)"
    and "sqlite_exec kInsertDeviceData [SText d] db =
           (True, db\<lparr>device_t := insert_or_ignore d (device_t db)\<rparr>)"
    and "sqlite_exec kInsertNotificationsByPriority [SText k, SInt v] db =
           (True, db\<lparr>notifications_by_priority_t :=
                    filter (\<lambda>r. fst r \<noteq> k) (notifications_by_priority_t db) @ [(k, v)]\<rparr>)"
    and "sqlite_exec kInsertAppGroup [SText a, SText g] db =
           (True, case filter (\<lambda>r. fst (snd r) = g) (functional_group_t db) of
                    [] \<Rightarrow> db
                  | r # _ \<Rightarrow> db\<lparr>app_group_t := app_group_t db @ [(a, fst r)]\<rparr>)"
  using assms by (simp_all add: sqlite_exec_def sqlite_update_def sqlite_insert_def)


subsubsection \<open>Loops that change one table\<close>






subsubsection \<open>The sub-saves of the singletons and of the flat tables\<close>




subsubsection \<open>Module config\<close>






subsection \<open>Reading back what was bound\<close>

lemma col_Cons [simp]:
  "col (x # r) 0 = x"
  "col (x # r) (Suc n) = col r n"
  "col (x # r) (numeral k) = col r (pred_numeral k)"
  by (simp_all add: col_def numeral_eq_Suc)

lemma getters_Cons [simp]:
  "GetInteger (x # r) (Suc n) = GetInteger r n"
  "GetInteger (x # r) (numeral k) = GetInteger r (pred_numeral k)"
  "GetUInteger (x # r) (Suc n) = GetUInteger r n"
  "GetUInteger (x # r) (numeral k) = GetUInteger r (pred_numeral k)"
  "GetBoolean (x # r) (Suc n) = GetBoolean r n"
  "GetBoolean (x # r) (numeral k) = GetBoolean r (pred_numeral k)"
  "GetString (x # r) (Suc n) = GetString r n"
  "GetString (x # r) (numeral k) = GetString r (pred_numeral k)"
  "IsNull (x # r) (Suc n) = IsNull r n"
  "IsNull (x # r) (numeral k) = IsNull r (pred_numeral k)"
  by (simp_all add: GetInteger_def GetUInteger_def GetBoolean_def GetString_def IsNull_def)

lemma getters_0 [simp]:
  "GetInteger (BindInt w # r) 0 = w"
  "GetInteger (SInt n # r) 0 = word_of_int n"
  "GetBoolean (BindBool b # r) 0 = b"
  "GetString (BindString (Some s) # r) 0 = s"
  "GetString (SText s # r) 0 = s"
  "IsNull (SText s # r) 0 = False"
  "IsNull (SInt n # r) 0 = False"
  "IsNull (SNull # r) 0 = True"
  by (simp_all add: GetInteger_def GetBoolean_def GetString_def IsNull_def BindInt_def
      BindBool_def BindString_def)

subsection \<open>Module meta\<close>


subsection \<open>Usage counts and device data\<close>










subsection \<open>Consumer friendly messages\<close>



subsection \<open>Module config\<close>














subsubsection \<open>Notifications\<close>




subsubsection \<open>The whole of module config\<close>






subsection \<open>Functional groupings\<close>







subsubsection \<open>What saving writes\<close>







subsection \<open>Loading the rpcs of a group\<close>










subsection \<open>What loading the groups yields\<close>












subsection \<open>Loading the groups that were saved\<close>






subsection \<open>Loading the applications\<close>










subsubsection \<open>The loaded section as a map built from the rows\<close>




subsection \<open>Saving the applications\<close>











lemma has_schema_saved_app [simp]: "has_schema (saved_app en app d) = has_schema d"
  by (simp add: saved_app_def)


lemma has_schema_saved_fold [simp]:
  "has_schema (foldl (\<lambda>d x. saved_app en x d) d xs) = has_schema d"
  by (induction xs arbitrary: d) simp_all



subsection \<open>The tables after saving the applications\<close>

lemma col_id_app_row [simp]: "col_id (app_row en x) = fst x"
  by (simp add: app_row_def new_application_row_def)





subsection \<open>Reading a saved application back\<close>



subsection \<open>Tokens and names that are read back\<close>










subsection \<open>The groups of a saved application\<close>






subsection \<open>An application that was saved is loaded as it was\<close>

lemma is_flag_BindBool [simp]: "is_flag (BindBool b) = b"
  by (simp add: is_flag_def)

lemma is_flag_SNull [simp]: "\<not> is_flag SNull"
  by (simp add: is_flag_def GetBoolean_def GetInteger_def)




subsection \<open>The section of the applications\<close>





subsubsection \<open>The list of what is saved\<close>














subsection \<open>The whole document\<close>













end
